theory Spec2Isabelle
  imports Complex_Main "HOL-Library.Sublist"
begin

section \<open>JavaScript values\<close>

text \<open>
  The drawing methods of \<^verbatim>\<open>src/index.js\<close> receive dynamically typed arguments: an id may
  be a number, a string or \<^verbatim>\<open>null\<close>; a value may be a literal, an array of ids or an object
  from keys to ids; a field that a descriptor leaves out reads as \<^verbatim>\<open>undefined\<close>.
  \<open>jsval\<close> is the part of the value space these arguments range over.

  \<^item> \<open>JNum n\<close> is the number with the integer value \<open>n\<close>. Only a safe integer
    (\<open>\<bar>n\<bar> < 2\<^sup>5\<^sup>3\<close>) is printed here, see \<open>js_String\<close>.
  \<^item> \<open>JDec s\<close> is a finite number that is not an integer, given by the text \<open>s\<close> that
    \<^verbatim>\<open>String\<close> prints for it, such as \<^verbatim>\<open>3.14\<close>. The program never computes with a
    value or an id: it prints them, tests them for truth and compares them with \<^verbatim>\<open>null\<close>.
  \<^item> \<open>JStr s\<close> is a string, one \<open>char\<close> per UTF-16 code unit, which is what
    \<^verbatim>\<open>.length\<close> counts.
  \<^item> \<open>JObj ps\<close> is a plain object, given by its own enumerable properties in the order in
    which \<^verbatim>\<open>for ... in\<close> and \<^verbatim>\<open>Object.keys\<close> visit them; the keys of \<open>ps\<close> are distinct.
    Its prototype is \<^verbatim>\<open>Object.prototype\<close>, and no value of \<open>jsval\<close> is a function, as for
    everything \<^verbatim>\<open>JSON.parse\<close> returns.
\<close>

datatype jsval =
    JUndefined
  | JNull
  | JBool bool
  | JNum int
  | JDec string
  | JStr string
  | JArr "jsval list"
  | JObj "(string \<times> jsval) list"

text \<open>
  \<open>TypeError\<close> is the exception the runtime throws on \<^verbatim>\<open>undefined.length\<close>,
  \<^verbatim>\<open>null.forEach\<close>, a call of a property that is no function, \<^verbatim>\<open>Object.keys(null)\<close>, or
  the conversion to a string of an object that cannot be converted.
  \<open>NotModelled\<close> is no exception of the program. It marks the inputs on which the program
  goes on and this theory does not: the geometry is computed in exact rationals, so a text
  length that is \<^verbatim>\<open>NaN\<close> (from the \<^verbatim>\<open>length\<close> of a number or a boolean, say) and a
  coordinate that is no integer-valued number have no value here; and the text of an integer
  is given for the safe integers only.
\<close>

datatype error = TypeError | NotModelled

subsection \<open>Conversion to string\<close>

definition digit :: "nat \<Rightarrow> char" where
  "digit d = ''0123456789'' ! d"

function decimal :: "nat \<Rightarrow> string" where
  "decimal n = (if n < 10 then [digit n] else decimal (n div 10) @ [digit (n mod 10)])"
  by pat_completeness auto
termination
  by (relation "measure (\<lambda>n. n)") auto

declare decimal.simps [simp del]

text \<open>
  The decimal text of an integer. \<^verbatim>\<open>String(n)\<close> and \<^verbatim>\<open>JSON.stringify(n)\<close> give this text
  for a safe integer, one of magnitude below \<open>2\<^sup>5\<^sup>3\<close>. Beyond that not every integer is a
  JavaScript number, the digits printed are the shortest that read back as the same number,
  and from \<open>10\<^sup>2\<^sup>1\<close> on the text is in exponent notation: there the conversions below answer
  \<open>NotModelled\<close>.
\<close>

definition num_str :: "int \<Rightarrow> string" where
  "num_str n = (if n < 0 then CHR ''-'' # decimal (nat (- n)) else decimal (nat n))"

definition safe_integer :: "int \<Rightarrow> bool" where
  "safe_integer n = (\<bar>n\<bar> < 2 ^ 53)"

fun join :: "string \<Rightarrow> string list \<Rightarrow> string" where
  "join sep [] = []"
| "join sep [s] = s"
| "join sep (s # t # ts) = s @ sep @ join sep (t # ts)"

text \<open>
  \<^verbatim>\<open>String(v)\<close>, which is also the conversion a template literal \<^verbatim>\<open>`id${v}`\<close> applies to
  \<open>v\<close>.
  \<^item> An object is converted by its \<^verbatim>\<open>toString\<close>. A plain object inherits the one that
    answers \<^verbatim>\<open>[object Object]\<close>; but an own property \<^verbatim>\<open>toString\<close> hides it, and since
    that property is no function (and \<^verbatim>\<open>valueOf\<close>, own or inherited, gives no primitive
    either) the conversion throws a \<open>TypeError\<close>.
  \<^item> An array joins the conversions of its elements with commas, from left to right, an
    element that is \<^verbatim>\<open>null\<close> or \<^verbatim>\<open>undefined\<close> giving the empty string; it throws
    when the conversion of an element throws.
\<close>

fun js_String :: "jsval \<Rightarrow> error + string"
  and js_String_elements :: "jsval list \<Rightarrow> error + string list" where
  "js_String JUndefined = Inr ''undefined''"
| "js_String JNull = Inr ''null''"
| "js_String (JBool b) = Inr (if b then ''true'' else ''false'')"
| "js_String (JNum n) = (if safe_integer n then Inr (num_str n) else Inl NotModelled)"
| "js_String (JDec s) = Inr s"
| "js_String (JStr s) = Inr s"
| "js_String (JArr vs) =
     (case js_String_elements vs of
        Inl e \<Rightarrow> Inl e
      | Inr ss \<Rightarrow> Inr (join '','' ss))"
| "js_String (JObj ps) =
     (if map_of ps ''toString'' = None then Inr ''[object Object]'' else Inl TypeError)"
| "js_String_elements [] = Inr []"
| "js_String_elements (v # vs) =
     (case (if v = JUndefined \<or> v = JNull then Inr [] else js_String v) of
        Inl e \<Rightarrow> Inl e
      | Inr s \<Rightarrow>
          (case js_String_elements vs of
             Inl e \<Rightarrow> Inl e
           | Inr ss \<Rightarrow> Inr (s # ss)))"

text \<open>The template literal \<^verbatim>\<open>`id${v}`\<close>, which throws when the conversion of \<open>v\<close>
  does.\<close>

definition id_of :: "jsval \<Rightarrow> error + string" where
  "id_of v = (case js_String v of Inl e \<Rightarrow> Inl e | Inr s \<Rightarrow> Inr (''id'' @ s))"

text \<open>
  The data of the text node that \<open>drawText\<close> makes from a type or class name that a caller
  passed through, which need not be a string. \<^verbatim>\<open>createTextNode\<close> belongs to the DOM
  library and not to this program, and the source does not say whether it converts its
  argument or throws on it. The node is taken to hold the text of the value: for a string the
  string itself, and for every value that \<open>js_String\<close> converts the string it gives (lemma
  \<open>text_data_js_String\<close>).
\<close>

fun text_data :: "jsval \<Rightarrow> string" where
  "text_data JUndefined = ''undefined''"
| "text_data JNull = ''null''"
| "text_data (JBool b) = (if b then ''true'' else ''false'')"
| "text_data (JNum n) = num_str n"
| "text_data (JDec s) = s"
| "text_data (JStr s) = s"
| "text_data (JArr vs) =
     join '','' (map (\<lambda>v. if v = JUndefined \<or> v = JNull then [] else text_data v) vs)"
| "text_data (JObj ps) = ''[object Object]''"

text \<open>Truthiness, as \<^verbatim>\<open>if (v)\<close> and \<^verbatim>\<open>v ? a : b\<close> test it.\<close>

fun truthy :: "jsval \<Rightarrow> bool" where
  "truthy JUndefined = False"
| "truthy JNull = False"
| "truthy (JBool b) = b"
| "truthy (JNum n) = (n \<noteq> 0)"
| "truthy (JDec s) = True"
| "truthy (JStr s) = (s \<noteq> [])"
| "truthy (JArr vs) = True"
| "truthy (JObj ps) = True"

subsection \<open>\<^verbatim>\<open>JSON.stringify\<close>\<close>

definition hex_digit :: "nat \<Rightarrow> char" where
  "hex_digit d = ''0123456789abcdef'' ! d"

text \<open>One character of a quoted JSON string: the quote and the backslash are escaped, the
  control characters get their short escape or \<^verbatim>\<open>\u00XX\<close>.\<close>

definition json_escape :: "char \<Rightarrow> string" where
  "json_escape c =
     (let n = (of_char c :: nat) in
      if n = 0x22 then [CHR 0x5C, CHR 0x22]
      else if n = 0x5C then [CHR 0x5C, CHR 0x5C]
      else if n = 0x08 then [CHR 0x5C, CHR ''b'']
      else if n = 0x09 then [CHR 0x5C, CHR ''t'']
      else if n = 0x0A then [CHR 0x5C, CHR ''n'']
      else if n = 0x0C then [CHR 0x5C, CHR ''f'']
      else if n = 0x0D then [CHR 0x5C, CHR ''r'']
      else if n < 0x20 then
        [CHR 0x5C, CHR ''u'', CHR ''0'', CHR ''0'', hex_digit (n div 16), hex_digit (n mod 16)]
      else [c])"

definition json_quote :: "string \<Rightarrow> string" where
  "json_quote s = CHR 0x22 # concat (map json_escape s) @ [CHR 0x22]"

text \<open>
  \<^verbatim>\<open>JSON.stringify(v)\<close>; \<open>None\<close> is the result \<^verbatim>\<open>undefined\<close>. Inside an array
  \<^verbatim>\<open>undefined\<close> prints as \<^verbatim>\<open>null\<close>; inside an object a property whose value is
  \<^verbatim>\<open>undefined\<close> is left out. It does not call \<^verbatim>\<open>toString\<close>, and a property
  \<^verbatim>\<open>toJSON\<close> that is no function is ignored, so on these values it never throws.
\<close>

fun json_stringify :: "jsval \<Rightarrow> error + string option"
  and json_elements :: "jsval list \<Rightarrow> error + string list"
  and json_members :: "(string \<times> jsval) list \<Rightarrow> error + string list" where
  "json_stringify JUndefined = Inr None"
| "json_stringify JNull = Inr (Some ''null'')"
| "json_stringify (JBool b) = Inr (Some (if b then ''true'' else ''false''))"
| "json_stringify (JNum n) =
     (if safe_integer n then Inr (Some (num_str n)) else Inl NotModelled)"
| "json_stringify (JDec s) = Inr (Some s)"
| "json_stringify (JStr s) = Inr (Some (json_quote s))"
| "json_stringify (JArr vs) =
     (case json_elements vs of
        Inl e \<Rightarrow> Inl e
      | Inr ss \<Rightarrow> Inr (Some (''['' @ join '','' ss @ '']'')))"
| "json_stringify (JObj ps) =
     (case json_members ps of
        Inl e \<Rightarrow> Inl e
      | Inr ms \<Rightarrow> Inr (Some (''{'' @ join '','' ms @ ''}'')))"
| "json_elements [] = Inr []"
| "json_elements (v # vs) =
     (case json_stringify v of
        Inl e \<Rightarrow> Inl e
      | Inr t \<Rightarrow>
          (case json_elements vs of
             Inl e \<Rightarrow> Inl e
           | Inr ss \<Rightarrow> Inr ((case t of None \<Rightarrow> ''null'' | Some s \<Rightarrow> s) # ss)))"
| "json_members [] = Inr []"
| "json_members ((k, v) # ps) =
     (case json_stringify v of
        Inl e \<Rightarrow> Inl e
      | Inr t \<Rightarrow>
          (case json_members ps of
             Inl e \<Rightarrow> Inl e
           | Inr ms \<Rightarrow>
               Inr ((case t of None \<Rightarrow> [] | Some s \<Rightarrow> [json_quote k @ '':'' @ s]) @ ms)))"

subsection \<open>Properties and enumeration\<close>

text \<open>\<^verbatim>\<open>for (const k in obj)\<close> together with \<^verbatim>\<open>obj[k]\<close>: the enumerable properties of a
  value with their values. An array and a string enumerate their indices; a number, a boolean,
  \<^verbatim>\<open>null\<close> and \<^verbatim>\<open>undefined\<close> enumerate nothing.\<close>

fun js_entries :: "jsval \<Rightarrow> (string \<times> jsval) list" where
  "js_entries (JObj ps) = ps"
| "js_entries (JArr vs) = zip (map decimal [0..<length vs]) vs"
| "js_entries (JStr s) = zip (map decimal [0..<length s]) (map (\<lambda>c. JStr [c]) s)"
| "js_entries v = []"

text \<open>\<^verbatim>\<open>Object.keys(v)\<close>, which throws on \<^verbatim>\<open>null\<close> and \<^verbatim>\<open>undefined\<close>.\<close>

definition Object_keys :: "jsval \<Rightarrow> error + string list" where
  "Object_keys v =
     (if v = JUndefined \<or> v = JNull then Inl TypeError else Inr (map fst (js_entries v)))"

text \<open>\<^verbatim>\<open>item.k\<close> for the field names that \<open>drawAll\<close> reads, on an item that is neither
  \<^verbatim>\<open>null\<close> nor \<^verbatim>\<open>undefined\<close>: a field the item does not have reads as \<^verbatim>\<open>undefined\<close>.\<close>

fun js_prop :: "jsval \<Rightarrow> string \<Rightarrow> jsval" where
  "js_prop (JObj ps) k = (case map_of ps k of None \<Rightarrow> JUndefined | Some v \<Rightarrow> v)"
| "js_prop v k = JUndefined"

text \<open>\<^verbatim>\<open>xs.includes(v)\<close> on an array of string literals.\<close>

definition js_includes :: "string list \<Rightarrow> jsval \<Rightarrow> bool" where
  "js_includes xs v = (v \<in> set (map JStr xs))"

section \<open>The memory model and its drawing surface\<close>

text \<open>
  A child of the root \<^verbatim>\<open>svg\<close> element. \<open>Rect x y width height\<close> is the node that
  \<^verbatim>\<open>rough_svg.rectangle(x, y, width, height, style)\<close> returns; no caller passes a style, so
  it is always \<^verbatim>\<open>this.rect_style\<close>, and the strokes that Rough.js derives from the four numbers
  are not part of this model. \<open>Text content x y fill anchor\<close> is a \<^verbatim>\<open>text\<close> element with
  its text node; its font family and font size are the same on every text element.
\<close>

datatype node =
    is_Rect: Rect (rect_x: rat) (rect_y: rat) (rect_w: rat) (rect_h: rat)
  | is_Text: Text (content: string) (text_x: rat) (text_y: rat) (fill: string) (anchor: string)

text \<open>
  An instance of the class: the fields the constructor copies from \<^verbatim>\<open>config\<close> (or from the
  caller's options), and the children appended to \<^verbatim>\<open>this.svg\<close> so far, oldest first.
  Two fields of \<^verbatim>\<open>config\<close> are left out: \<^verbatim>\<open>rect_style\<close>, which only reaches Rough.js, and
  \<^verbatim>\<open>browser\<close>, which only the constructor reads.
  JavaScript numbers are IEEE doubles; here they are exact rationals.
\<close>

record MemoryModel =
  text_color :: string
  value_color :: string
  id_color :: string
  item_min_width :: rat
  item_min_height :: rat
  obj_min_width :: rat
  obj_min_height :: rat
  prop_min_width :: rat
  prop_min_height :: rat
  obj_x_padding :: rat
  double_rect_sep :: rat
  list_index_sep :: rat
  font_size :: rat
  svg :: "node list"

text \<open>\<^verbatim>\<open>new MemoryModel()\<close>: every field at its default from \<^verbatim>\<open>config\<close>, nothing drawn.\<close>

definition config :: MemoryModel where
  "config = \<lparr>
     text_color = ''rgb(0, 0, 0)'',
     value_color = ''rgb(27, 14, 139)'',
     id_color = ''rgb(150, 100, 28)'',
     item_min_width = 50,
     item_min_height = 50,
     obj_min_width = 200,
     obj_min_height = 130,
     prop_min_width = 60,
     prop_min_height = 50,
     obj_x_padding = 25,
     double_rect_sep = 6,
     list_index_sep = 20,
     font_size = 20,
     svg = [] \<rparr>"

definition immutable :: "string list" where
  "immutable = [''int'', ''str'', ''tuple'', ''None'', ''bool'', ''float'', ''date'']"

definition collections :: "string list" where
  "collections = [''list'', ''set'', ''tuple'', ''dict'']"

text \<open>
  What a drawing method leaves behind: \<open>Inr m\<close> when it returns, with \<open>m\<close> the instance after
  the call; \<open>Inl (e, m)\<close> when it throws \<open>e\<close>, with \<open>m\<close> the instance at the throw, which keeps
  the nodes appended before it.
\<close>

type_synonym outcome = "(error \<times> MemoryModel) + MemoryModel"

definition surface :: "outcome \<Rightarrow> node list" where
  "surface r = (case r of Inl (e, m) \<Rightarrow> svg m | Inr m \<Rightarrow> svg m)"

subsection \<open>Drawing primitives and text metrics\<close>

definition drawRect :: "MemoryModel \<Rightarrow> rat \<Rightarrow> rat \<Rightarrow> rat \<Rightarrow> rat \<Rightarrow> MemoryModel" where
  "drawRect m x y width height = m\<lparr>svg := svg m @ [Rect x y width height]\<rparr>"

text \<open>\<open>colour\<close> and \<open>align\<close> fall back with \<^verbatim>\<open>||\<close>, so an empty string counts as missing;
  \<open>align = None\<close> is a call without the fifth argument.\<close>

definition drawText ::
  "MemoryModel \<Rightarrow> string \<Rightarrow> rat \<Rightarrow> rat \<Rightarrow> string \<Rightarrow> string option \<Rightarrow> MemoryModel" where
  "drawText m text x y colour align =
     (let colour' = (if colour = [] then text_color m else colour);
          align' = (case align of None \<Rightarrow> ''middle''
                    | Some a \<Rightarrow> if a = [] then ''middle'' else a)
      in m\<lparr>svg := svg m @ [Text text x y colour' align']\<rparr>)"

text \<open>\<^verbatim>\<open>getTextLength(s)\<close> on a string.\<close>

definition getTextLength :: "string \<Rightarrow> rat" where
  "getTextLength s = of_nat (length s) * 12"

text \<open>The same method on an argument the caller passed through untyped (a type or class
  name): \<^verbatim>\<open>s.length\<close> throws on \<^verbatim>\<open>undefined\<close> and \<^verbatim>\<open>null\<close>, counts the elements of an
  array, and reads the property \<^verbatim>\<open>length\<close> of an object. Where that is no integer-valued
  number, and on a number or a boolean, the product is \<^verbatim>\<open>NaN\<close> or comes from a coercion.\<close>

fun getTextLength_of :: "jsval \<Rightarrow> error + rat" where
  "getTextLength_of (JStr s) = Inr (getTextLength s)"
| "getTextLength_of (JArr vs) = Inr (of_nat (length vs) * 12)"
| "getTextLength_of JUndefined = Inl TypeError"
| "getTextLength_of JNull = Inl TypeError"
| "getTextLength_of (JObj ps) =
     (case map_of ps ''length'' of Some (JNum n) \<Rightarrow> Inr (of_int n * 12) | _ \<Rightarrow> Inl NotModelled)"
| "getTextLength_of v = Inl NotModelled"

subsection \<open>The id and type boxes\<close>

text \<open>The expression \<^verbatim>\<open>v === null ? "" : `id${v}`\<close>, which labels an element of a
  collection, a value of a dictionary and an attribute of a class.\<close>

definition idv_of :: "jsval \<Rightarrow> error + string" where
  "idv_of v = (if v = JNull then Inr [] else id_of v)"

text \<open>\<open>drawProperties\<close> measures both labels before it draws anything: first the id label,
  whose template literal throws when the id has no string form, then the type, which throws
  when the type has no \<^verbatim>\<open>length\<close>. In both cases nothing is appended.\<close>

definition drawProperties ::
  "MemoryModel \<Rightarrow> jsval \<Rightarrow> jsval \<Rightarrow> rat \<Rightarrow> rat \<Rightarrow> rat \<Rightarrow> outcome" where
  "drawProperties m id' type' x y width =
     (case id_of id' of
        Inl e \<Rightarrow> Inl (e, m)
      | Inr id_text \<Rightarrow>
          let id_box = max (prop_min_width m) (getTextLength id_text + 10) in
          (case getTextLength_of type' of
             Inl e \<Rightarrow> Inl (e, m)
           | Inr type_length \<Rightarrow>
               let type_box = max (prop_min_width m) (type_length + 10);
                   m1 = drawText m (if id' = JNull then [] else id_text)
                          (x + id_box / 2) (y + font_size m * (3 / 2)) (id_color m) None;
                   m2 = drawText m1 (text_data type')
                          (x + width - type_box / 2) (y + font_size m * (3 / 2))
                          (value_color m) None;
                   m3 = drawRect m2 x y id_box (prop_min_height m);
                   m4 = drawRect m3 (x + width - type_box) y type_box (prop_min_height m)
               in Inr m4))"

subsection \<open>Primitive objects\<close>

text \<open>
  \<^verbatim>\<open>String(value)\<close> is the first thing \<open>drawPrimitive\<close> evaluates: when it throws, nothing
  is appended. \<open>display_text\<close> is \<open>None\<close> when \<^verbatim>\<open>JSON.stringify\<close> returns
  \<^verbatim>\<open>undefined\<close>; a text node made from it would read \<^verbatim>\<open>undefined\<close>.
\<close>

definition drawPrimitive ::
  "MemoryModel \<Rightarrow> rat \<Rightarrow> rat \<Rightarrow> jsval \<Rightarrow> jsval \<Rightarrow> jsval \<Rightarrow> outcome" where
  "drawPrimitive m x y type' id' val =
     (case js_String val of
        Inl e \<Rightarrow> Inl (e, m)
      | Inr value_text \<Rightarrow>
          let box_width = max (obj_min_width m) (getTextLength value_text + obj_x_padding m);
              m1 = drawRect m x y box_width (obj_min_height m);
              m2 = (if js_includes immutable type'
                    then drawRect m1 (x - double_rect_sep m) (y - double_rect_sep m)
                           (box_width + 2 * double_rect_sep m)
                           (obj_min_height m + 2 * double_rect_sep m)
                    else m1)
          in (case (if type' = JStr ''bool''
                    then Inr (Some (if truthy val then ''True'' else ''False''))
                    else json_stringify val) of
                Inl e \<Rightarrow> Inl (e, m2)
              | Inr display_text \<Rightarrow>
                  let m3 = (if val \<noteq> JNull \<and> val \<noteq> JUndefined
                            then drawText m2
                                   (case display_text of None \<Rightarrow> ''undefined'' | Some t \<Rightarrow> t)
                                   (x + box_width / 2)
                                   (y + (obj_min_height m + prop_min_height m) / 2)
                                   (value_color m) None
                            else m2)
                  in drawProperties m3 id' type' x y box_width))"

subsection \<open>Sequences and sets\<close>

text \<open>The first \<^verbatim>\<open>forEach\<close> of \<open>drawSequence\<close> and of \<open>drawSet\<close>: it adds the width of
  every element box to \<open>box_width\<close>, and throws at the first element whose label has no string
  form.\<close>

fun add_item_widths :: "MemoryModel \<Rightarrow> jsval list \<Rightarrow> rat \<Rightarrow> error + rat" where
  "add_item_widths m [] box_width = Inr box_width"
| "add_item_widths m (v # vs) box_width =
     (case idv_of v of
        Inl e \<Rightarrow> Inl e
      | Inr idv \<Rightarrow>
          add_item_widths m vs
            (box_width + max (item_min_width m) (getTextLength idv + 10)))"

text \<open>The second \<^verbatim>\<open>forEach\<close> of \<open>drawSequence\<close>, from element \<open>i\<close> on, with \<open>curr_x\<close> the
  left edge of the next element box.\<close>

fun drawSequence_items ::
  "MemoryModel \<Rightarrow> rat \<Rightarrow> bool \<Rightarrow> jsval list \<Rightarrow> nat \<Rightarrow> rat \<Rightarrow> outcome" where
  "drawSequence_items m item_y show_idx [] i curr_x = Inr m"
| "drawSequence_items m item_y show_idx (v # vs) i curr_x =
     (case idv_of v of
        Inl e \<Rightarrow> Inl (e, m)
      | Inr idv \<Rightarrow>
          let item_length = max (item_min_width m) (getTextLength idv + 10);
              m1 = drawRect m curr_x item_y item_length (item_min_height m);
              m2 = drawText m1 idv (curr_x + item_length / 2)
                     (item_y + item_min_height m / 2 + font_size m / 4) (id_color m) None;
              m3 = (if show_idx
                    then drawText m2 (decimal i) (curr_x + item_length / 2)
                           (item_y - item_min_height m / 4) (text_color m) None
                    else m2)
          in drawSequence_items m3 item_y show_idx vs (Suc i) (curr_x + item_length))"

text \<open>\<^verbatim>\<open>element_ids.forEach\<close> exists on arrays only: any other value throws before a node is
  appended, and so does an element without a string form, in the first loop. The label of
  the property boxes is \<^verbatim>\<open>"list"\<close> for the type \<^verbatim>\<open>"list"\<close> and \<^verbatim>\<open>"tuple"\<close> for every
  other type.\<close>

definition drawSequence ::
  "MemoryModel \<Rightarrow> rat \<Rightarrow> rat \<Rightarrow> jsval \<Rightarrow> jsval \<Rightarrow> jsval \<Rightarrow> jsval \<Rightarrow> outcome" where
  "drawSequence m x y type' id' element_ids show_idx =
     (case element_ids of
        JArr vs \<Rightarrow>
          (case add_item_widths m vs (obj_x_padding m * 2) of
             Inl e \<Rightarrow> Inl (e, m)
           | Inr items_width \<Rightarrow>
               let box_width = max (obj_min_width m) items_width;
                   box_height = (if truthy show_idx then obj_min_height m + list_index_sep m
                                 else obj_min_height m);
                   m1 = drawRect m x y box_width box_height;
                   m2 = (if js_includes immutable type'
                         then drawRect m1 (x - double_rect_sep m) (y - double_rect_sep m)
                                (box_width + 2 * double_rect_sep m)
                                (box_height + 2 * double_rect_sep m)
                         else m1);
                   curr_x = x + item_min_width m / 2;
                   item_y0 = y + prop_min_height m
                             + (obj_min_height m - prop_min_height m - item_min_height m) / 2;
                   item_y = (if truthy show_idx then item_y0 + list_index_sep m else item_y0)
               in (case drawSequence_items m2 item_y (truthy show_idx) vs 0 curr_x of
                     Inl e \<Rightarrow> Inl e
                   | Inr m3 \<Rightarrow>
                       if type' = JStr ''list''
                       then drawProperties m3 id' (JStr ''list'') x y box_width
                       else drawProperties m3 id' (JStr ''tuple'') x y box_width))
      | _ \<Rightarrow> Inl (TypeError, m))"

text \<open>The second \<^verbatim>\<open>forEach\<close> of \<open>drawSet\<close>. The step of \<open>curr_x\<close> adds a quarter of
  \<open>item_min_height\<close>, as the source does.\<close>

fun drawSet_items ::
  "MemoryModel \<Rightarrow> rat \<Rightarrow> rat \<Rightarrow> jsval list \<Rightarrow> nat \<Rightarrow> rat \<Rightarrow> outcome" where
  "drawSet_items m item_y item_text_y [] i curr_x = Inr m"
| "drawSet_items m item_y item_text_y (v # vs) i curr_x =
     (case idv_of v of
        Inl e \<Rightarrow> Inl (e, m)
      | Inr idv \<Rightarrow>
          let item_length = max (item_min_width m) (getTextLength idv + 10);
              m1 = drawRect m curr_x item_y item_length (item_min_height m);
              m2 = drawText m1 idv (curr_x + item_length / 2) item_text_y (id_color m) None;
              m3 = (if i > 0
                    then drawText m2 '','' (curr_x - item_min_width m / 8) item_text_y
                           (text_color m) None
                    else m2)
          in drawSet_items m3 item_y item_text_y vs (Suc i)
               (curr_x + item_length + item_min_height m / 4))"

definition drawSet :: "MemoryModel \<Rightarrow> rat \<Rightarrow> rat \<Rightarrow> jsval \<Rightarrow> jsval \<Rightarrow> outcome" where
  "drawSet m x y id' element_ids =
     (case element_ids of
        JArr vs \<Rightarrow>
          (case add_item_widths m vs (obj_x_padding m * 2) of
             Inl e \<Rightarrow> Inl (e, m)
           | Inr items_width \<Rightarrow>
               let box_width0 = max (obj_min_width m) items_width;
                   box_width = box_width0 + ((of_nat (length vs) - 1) * item_min_width m) / 4;
                   m1 = drawRect m x y box_width (obj_min_height m);
                   curr_x = x + item_min_width m / 2;
                   item_y = y + prop_min_height m
                            + (obj_min_height m - prop_min_height m - item_min_height m) / 2;
                   item_text_y = item_y + item_min_height m / 2 + font_size m / 4
               in (case drawSet_items m1 item_y item_text_y vs 0 curr_x of
                     Inl e \<Rightarrow> Inl e
                   | Inr m2 \<Rightarrow>
                       (case drawProperties m2 id' (JStr ''set'') x y box_width of
                          Inl e \<Rightarrow> Inl e
                        | Inr m3 \<Rightarrow>
                            let m4 = drawText m3 ''{'' (x + item_min_width m / 4) item_text_y
                                       (text_color m) None;
                                m5 = drawText m4 ''}'' (x + box_width - item_min_width m / 4)
                                       item_text_y (text_color m) None
                            in Inr m5)))
      | _ \<Rightarrow> Inl (TypeError, m))"

subsection \<open>Dictionaries\<close>

text \<open>
  The first loop of \<open>drawDict\<close>. A key \<open>k\<close> of \<^verbatim>\<open>for (const k in obj)\<close> is a string, so
  \<^verbatim>\<open>k === null\<close> is false and \<open>idk\<close> is \<^verbatim>\<open>`id${k}`\<close>, the key after \<^verbatim>\<open>id\<close>. The
  label \<open>idv\<close> of the value is computed before the key box is drawn, and throws when the
  value has no string form; the boxes of the earlier keys are on the surface then.
  In \<^verbatim>\<open>idk + 5\<close> the number is appended to the string as the character \<^verbatim>\<open>5\<close>.
  The loop returns the instance with the final \<open>box_width\<close> and \<open>box_height\<close>.
\<close>

fun drawDict_keys ::
  "MemoryModel \<Rightarrow> rat \<Rightarrow> (string \<times> jsval) list \<Rightarrow> rat \<Rightarrow> rat \<Rightarrow> rat
     \<Rightarrow> (error \<times> MemoryModel) + (MemoryModel \<times> rat \<times> rat)" where
  "drawDict_keys m x [] curr_y box_width box_height = Inr (m, box_width, box_height)"
| "drawDict_keys m x ((k, v) # kvs) curr_y box_width box_height =
     (let idk = ''id'' @ k in
      case idv_of v of
        Inl e \<Rightarrow> Inl (e, m)
      | Inr idv \<Rightarrow>
          let key_box = max (item_min_width m) (getTextLength (idk @ ''5''));
              value_box = max (item_min_width m) (getTextLength (idv @ ''5''));
              m1 = drawRect m (x + obj_x_padding m) curr_y key_box (item_min_height m);
              m2 = drawText m1 idk (x + item_min_width m + 2)
                     (curr_y + item_min_height m / 2 + font_size m / 4) (id_color m) None
          in drawDict_keys m2 x kvs (curr_y + item_min_height m * (3 / 2))
               (max box_width
                  (obj_x_padding m * 2 + key_box + value_box + 2 * font_size m))
               (box_height + (3 / 2) * item_min_height m))"

text \<open>The second loop of \<open>drawDict\<close>, which knows the final \<open>box_width\<close>.\<close>

fun drawDict_values ::
  "MemoryModel \<Rightarrow> rat \<Rightarrow> rat \<Rightarrow> (string \<times> jsval) list \<Rightarrow> rat \<Rightarrow> outcome" where
  "drawDict_values m x box_width [] curr_y = Inr m"
| "drawDict_values m x box_width ((k, v) # kvs) curr_y =
     (case idv_of v of
        Inl e \<Rightarrow> Inl (e, m)
      | Inr idv \<Rightarrow>
          let value_box = max (item_min_width m) (getTextLength (idv @ ''5''));
              m1 = drawText m '':'' (x + box_width / 2)
                     (curr_y + item_min_height m / 2 + font_size m / 4) (value_color m) None;
              m2 = drawRect m1 (x + box_width / 2 + font_size m) curr_y value_box
                     (item_min_height m);
              m3 = drawText m2 idv (x + box_width / 2 + font_size m + value_box / 2)
                     (curr_y + item_min_height m / 2 + font_size m / 4) (id_color m) None
          in drawDict_values m3 x box_width kvs (curr_y + item_min_height m * (3 / 2)))"

definition drawDict :: "MemoryModel \<Rightarrow> rat \<Rightarrow> rat \<Rightarrow> jsval \<Rightarrow> jsval \<Rightarrow> outcome" where
  "drawDict m x y id' obj =
     (let curr_y = y + prop_min_height m + item_min_height m / 2 in
      case drawDict_keys m x (js_entries obj) curr_y (obj_min_width m)
             (prop_min_height m + item_min_height m / 2) of
        Inl e \<Rightarrow> Inl e
      | Inr (m1, box_width, box_height) \<Rightarrow>
          (case drawDict_values m1 x box_width (js_entries obj) curr_y of
             Inl e \<Rightarrow> Inl e
           | Inr m2 \<Rightarrow>
               let m3 = drawRect m2 x y box_width box_height
               in drawProperties m3 id' (JStr ''dict'') x y box_width))"

subsection \<open>Classes and stack frames\<close>

text \<open>The loop that finds the widest attribute name.\<close>

fun longest_attribute :: "(string \<times> jsval) list \<Rightarrow> rat \<Rightarrow> rat" where
  "longest_attribute [] longest = longest"
| "longest_attribute ((attribute, v) # kvs) longest =
     longest_attribute kvs (max longest (getTextLength attribute))"

text \<open>The loop that draws one row per attribute. It throws at the first attribute whose
  value has no string form, with the outer box and the earlier rows on the surface.\<close>

fun drawClass_attributes ::
  "MemoryModel \<Rightarrow> rat \<Rightarrow> rat \<Rightarrow> (string \<times> jsval) list \<Rightarrow> rat \<Rightarrow> outcome" where
  "drawClass_attributes m x box_width [] curr_y = Inr m"
| "drawClass_attributes m x box_width ((attribute, v) # kvs) curr_y =
     (case idv_of v of
        Inl e \<Rightarrow> Inl (e, m)
      | Inr idv \<Rightarrow>
          let attr_box = max (item_min_width m) (getTextLength idv + 10);
              m1 = drawRect m (x + box_width - item_min_width m * (3 / 2)) curr_y attr_box
                     (item_min_height m);
              m2 = drawText m1 attribute (x + item_min_width m / 2)
                     (curr_y + item_min_height m / 2 + font_size m / 4) (text_color m)
                     (Some ''begin'');
              m3 = drawText m2 idv
                     (x + box_width - item_min_width m * (3 / 2) + attr_box / 2)
                     (curr_y + item_min_height m / 2 + font_size m / 4) (id_color m) None
          in drawClass_attributes m3 x box_width kvs (curr_y + item_min_height m * (3 / 2)))"

text \<open>
  Both \<^verbatim>\<open>getTextLength(name)\<close> and \<^verbatim>\<open>Object.keys(attributes)\<close> are evaluated before the
  first node is appended. The factor \<^verbatim>\<open>0.6\<close> of the stack-frame label is taken as the exact
  fraction.
\<close>

definition drawClass ::
  "MemoryModel \<Rightarrow> rat \<Rightarrow> rat \<Rightarrow> jsval \<Rightarrow> jsval \<Rightarrow> jsval \<Rightarrow> jsval \<Rightarrow> outcome" where
  "drawClass m x y name id' attributes stack_frame =
     (let longest = longest_attribute (js_entries attributes) 0;
          box_width0 = (if longest > 0 then longest + item_min_width m * 3
                        else obj_min_width m)
      in case getTextLength_of name of
           Inl e \<Rightarrow> Inl (e, m)
         | Inr name_length \<Rightarrow>
             let box_width = max box_width0 (prop_min_width m + name_length + 10) in
             (case Object_keys attributes of
                Inl e \<Rightarrow> Inl (e, m)
              | Inr keys \<Rightarrow>
                  let box_height =
                        (if length keys > 0
                         then ((item_min_width m * 3) / 2) * of_nat (length keys)
                              + item_min_width m / 2 + prop_min_height m
                         else obj_min_height m);
                      m1 = drawRect m x y box_width box_height
                  in (case drawClass_attributes m1 x box_width (js_entries attributes)
                             (y + prop_min_height m + item_min_height m / 2) of
                        Inl e \<Rightarrow> Inl e
                      | Inr m2 \<Rightarrow>
                          if truthy stack_frame
                          then
                            let m3 = drawRect m2 x y (name_length + 10) (prop_min_height m);
                                m4 = drawText m3 (text_data name) (x + name_length / 2 + 5)
                                       (y + prop_min_height m * (3 / 5)) (text_color m) None
                            in Inr m4
                          else drawProperties m2 id' name x y box_width)))"

subsection \<open>Dispatch\<close>

definition drawObject ::
  "MemoryModel \<Rightarrow> rat \<Rightarrow> rat \<Rightarrow> jsval \<Rightarrow> jsval \<Rightarrow> jsval \<Rightarrow> jsval \<Rightarrow> outcome" where
  "drawObject m x y type' id' val show_indexes =
     (if js_includes collections type' then
        if type' = JStr ''dict'' then drawDict m x y id' val
        else if type' = JStr ''set'' then drawSet m x y id' val
        else if type' = JStr ''list'' \<or> type' = JStr ''tuple''
        then drawSequence m x y type' id' val show_indexes
        else Inr m
      else drawPrimitive m x y type' id' val)"

text \<open>A coordinate read from a descriptor: the value of an integer-valued number. A
  descriptor with any other \<^verbatim>\<open>x\<close> or \<^verbatim>\<open>y\<close> is answered with \<open>NotModelled\<close>.\<close>

fun js_number :: "jsval \<Rightarrow> rat option" where
  "js_number (JNum n) = Some (of_int n)"
| "js_number v = None"

text \<open>
  The class body defines \<open>drawAll\<close> twice, and the later definition (the one after
  \<open>getTextLength\<close>) replaces the earlier one. This is the body of its loop: it reads the fields
  \<^verbatim>\<open>isClass\<close>, \<^verbatim>\<open>x\<close>, \<^verbatim>\<open>y\<close>, \<^verbatim>\<open>name\<close>, \<^verbatim>\<open>id\<close>, \<^verbatim>\<open>value\<close>,
  \<^verbatim>\<open>stack_frame\<close> and \<^verbatim>\<open>show_indexes\<close> of the item, and no other. Reading a field of
  \<^verbatim>\<open>null\<close> or \<^verbatim>\<open>undefined\<close> throws.
\<close>

definition drawAll_item :: "MemoryModel \<Rightarrow> jsval \<Rightarrow> outcome" where
  "drawAll_item m item =
     (if item = JUndefined \<or> item = JNull then Inl (TypeError, m)
      else case (js_number (js_prop item ''x''), js_number (js_prop item ''y'')) of
             (Some x, Some y) \<Rightarrow>
               if truthy (js_prop item ''isClass'')
               then drawClass m x y (js_prop item ''name'') (js_prop item ''id'')
                      (js_prop item ''value'') (js_prop item ''stack_frame'')
               else drawObject m x y (js_prop item ''name'') (js_prop item ''id'')
                      (js_prop item ''value'') (js_prop item ''show_indexes'')
           | _ \<Rightarrow> Inl (NotModelled, m))"

text \<open>\<open>drawAll\<close> on an array of items, in order; an item that throws ends the call.\<close>

fun drawAll :: "MemoryModel \<Rightarrow> jsval list \<Rightarrow> outcome" where
  "drawAll m [] = Inr m"
| "drawAll m (item # objects) =
     (case drawAll_item m item of
        Inl e \<Rightarrow> Inl e
      | Inr m' \<Rightarrow> drawAll m' objects)"

text \<open>
  The earlier, replaced definition of \<open>drawAll\<close> (the one before \<open>drawObject\<close>), which no call
  reaches. It reads \<^verbatim>\<open>showIndexes\<close> and \<^verbatim>\<open>stackFrame\<close> instead, with the defaults
  \<^verbatim>\<open>false\<close> and \<^verbatim>\<open>null\<close> applied by \<^verbatim>\<open>||\<close>; like the later one it takes the type from
  \<^verbatim>\<open>name\<close>.
\<close>

definition drawAll_replaced_item :: "MemoryModel \<Rightarrow> jsval \<Rightarrow> outcome" where
  "drawAll_replaced_item m item =
     (if item = JUndefined \<or> item = JNull then Inl (TypeError, m)
      else
        let showIndexes = (if truthy (js_prop item ''showIndexes'')
                           then js_prop item ''showIndexes'' else JBool False);
            stackFrame = (if truthy (js_prop item ''stackFrame'')
                          then js_prop item ''stackFrame'' else JNull)
        in case (js_number (js_prop item ''x''), js_number (js_prop item ''y'')) of
             (Some x, Some y) \<Rightarrow>
               if truthy (js_prop item ''isClass'')
               then drawClass m x y (js_prop item ''name'') (js_prop item ''id'')
                      (js_prop item ''value'') stackFrame
               else drawObject m x y (js_prop item ''name'') (js_prop item ''id'')
                      (js_prop item ''value'') showIndexes
           | _ \<Rightarrow> Inl (NotModelled, m))"

fun drawAll_replaced :: "MemoryModel \<Rightarrow> jsval list \<Rightarrow> outcome" where
  "drawAll_replaced m [] = Inr m"
| "drawAll_replaced m (item # objects) =
     (case drawAll_replaced_item m item of
        Inl e \<Rightarrow> Inl e
      | Inr m' \<Rightarrow> drawAll_replaced m' objects)"

section \<open>Reading the surface\<close>

text \<open>
  The statements below speak about what a call leaves on the surface. These are the words
  they use: the rectangles and the text elements among some nodes, the number of text
  elements with a given content, whether a call returned, and the nodes a call appended to
  the instance \<open>m\<close> it started from.
\<close>

definition rects :: "node list \<Rightarrow> node list" where
  "rects ns = filter is_Rect ns"

definition texts :: "node list \<Rightarrow> node list" where
  "texts ns = filter is_Text ns"

definition count_text :: "string \<Rightarrow> node list \<Rightarrow> nat" where
  "count_text s ns = length (filter (\<lambda>n. is_Text n \<and> content n = s) ns)"

definition returns :: "outcome \<Rightarrow> bool" where
  "returns r = (case r of Inl e \<Rightarrow> False | Inr m \<Rightarrow> True)"

definition appended :: "MemoryModel \<Rightarrow> outcome \<Rightarrow> node list" where
  "appended m r = drop (length (svg m)) (surface r)"

text \<open>\<open>extends m m'\<close>: \<open>m'\<close> is \<open>m\<close> with further nodes appended, every other field
  unchanged. No drawing method writes a configuration field or removes a node.\<close>

definition extends :: "MemoryModel \<Rightarrow> MemoryModel \<Rightarrow> bool" where
  "extends m m' = (\<exists>ns. m' = m\<lparr>svg := svg m @ ns\<rparr>)"

section \<open>Auxiliary facts\<close>

subsection \<open>Nodes and extension\<close>

lemma rects_simps [simp]:
  "rects [] = []" "rects (Rect a b c d # ns) = Rect a b c d # rects ns"
  "rects (Text s a b f g # ns) = rects ns" "rects (xs @ ys) = rects xs @ rects ys"
  by (simp_all add: rects_def)

lemma texts_simps [simp]:
  "texts [] = []" "texts (Rect a b c d # ns) = texts ns"
  "texts (Text s a b f g # ns) = Text s a b f g # texts ns" "texts (xs @ ys) = texts xs @ texts ys"
  by (simp_all add: texts_def)

lemma count_text_simps [simp]:
  "count_text s [] = 0" "count_text s (Rect a b c d # ns) = count_text s ns"
  "count_text s (Text t a b f g # ns) = (if t = s then Suc (count_text s ns) else count_text s ns)"
  "count_text s (xs @ ys) = count_text s xs + count_text s ys"
  by (simp_all add: count_text_def)

lemma count_text_texts: "count_text c ns = count_list (map content (texts ns)) c"
proof (induction ns)
  case Nil
  show ?case by simp
next
  case (Cons n ns)
  then show ?case by (cases n) simp_all
qed

lemma extends_refl: "extends m m"
  unfolding extends_def by (rule exI [of _ "[]"]) simp

lemma extends_trans: "extends m m' \<Longrightarrow> extends m' m'' \<Longrightarrow> extends m m''"
  by (auto simp: extends_def)

lemma extends_drawRect: "extends m m' \<Longrightarrow> extends m (drawRect m' x y w h)"
  by (auto simp: extends_def drawRect_def)

lemma extends_drawText: "extends m m' \<Longrightarrow> extends m (drawText m' t x y c a)"
  by (auto simp: extends_def drawText_def Let_def)

lemmas extends_intros = extends_refl extends_drawRect extends_drawText

lemma extends_fields:
  assumes "extends m m'"
  shows "text_color m' = text_color m" "value_color m' = value_color m" "id_color m' = id_color m"
    "item_min_width m' = item_min_width m" "item_min_height m' = item_min_height m"
    "obj_min_width m' = obj_min_width m" "obj_min_height m' = obj_min_height m"
    "prop_min_width m' = prop_min_width m" "prop_min_height m' = prop_min_height m"
    "obj_x_padding m' = obj_x_padding m" "double_rect_sep m' = double_rect_sep m"
    "list_index_sep m' = list_index_sep m" "font_size m' = font_size m"
  using assms by (auto simp: extends_def)

lemma extends_prefix: "extends m m' \<Longrightarrow> prefix (svg m) (svg m')"
  by (auto simp: extends_def)

lemma extends_append: "extends m (m\<lparr>svg := svg m @ ns\<rparr>)"
  unfolding extends_def by (rule exI [of _ ns]) simp

lemma appended_Inr:
  assumes "r = Inr m'" and "extends m m'"
  shows "returns r" and "surface r = svg m @ appended m r" and "svg m' = svg m @ appended m r"
  using assms by (auto simp: returns_def surface_def appended_def extends_def)

lemma prefix_appended:
  assumes "prefix (svg m @ ns) (surface r)"
  shows "surface r = svg m @ appended m r" and "take (length ns) (appended m r) = ns"
  using assms by (auto simp: prefix_def appended_def)

lemma appended_length_rects:
  assumes "r = Inr m'" and "extends m m'"
    and "length (rects (svg m')) = length (rects (svg m)) + k"
  shows "length (rects (appended m r)) = k"
  using assms(3) by (simp add: appended_Inr(3) [OF assms(1,2)])

lemma appended_count_text:
  assumes "r = Inr m'" and "extends m m'"
    and "count_text c (svg m') = count_text c (svg m) + k"
  shows "count_text c (appended m r) = k"
  using assms(3) by (simp add: appended_Inr(3) [OF assms(1,2)])

lemma appended_text_contents:
  assumes "r = Inr m'" and "extends m m'"
    and "map content (texts (svg m')) = map content (texts (svg m)) @ cs"
  shows "map content (texts (appended m r)) = cs"
  using assms(3) by (simp add: appended_Inr(3) [OF assms(1,2)])


lemma surface_simps [simp]:
  "surface (Inl (e, m)) = svg m" "surface (Inr m) = svg m"
  by (simp_all add: surface_def)

lemma returns_simps [simp]:
  "returns (Inr m) = True" "returns (Inl em) = False"
  by (simp_all add: returns_def)

subsection \<open>Evaluation on concrete descriptors\<close>

lemma decimal_digit: "n < 10 \<Longrightarrow> decimal n = [digit n]"
  by (simp add: decimal.simps)

lemmas eval_defs =
  drawAll_item_def drawAll_replaced_item_def drawObject_def drawPrimitive_def drawSequence_def
  drawSet_def drawDict_def drawClass_def drawProperties_def drawRect_def drawText_def
  js_includes_def collections_def immutable_def getTextLength_def Object_keys_def
  id_of_def idv_of_def num_str_def safe_integer_def digit_def json_quote_def Let_def

subsection \<open>String forms\<close>

lemma id_of_Inr: "id_of v = Inr t \<longleftrightarrow> (\<exists>s. js_String v = Inr s \<and> t = ''id'' @ s)"
  by (auto simp: id_of_def split: sum.splits)

lemma id_of_Inl: "id_of v = Inl e \<longleftrightarrow> js_String v = Inl e"
  by (auto simp: id_of_def split: sum.splits)

lemma idv_of_Inr:
  "idv_of v = Inr l \<longleftrightarrow> (if v = JNull then l = [] else id_of v = Inr l)"
  by (auto simp: idv_of_def)

lemma id_of_not_glyph:
  assumes "id_of v = Inr l"
  shows "l \<noteq> '',''" "l \<noteq> ''{''" "l \<noteq> ''}''" "l \<noteq> []"
  using assms by (auto simp: id_of_Inr)

lemma idv_of_not_glyph:
  assumes "idv_of v = Inr l"
  shows "l \<noteq> '',''" "l \<noteq> ''{''" "l \<noteq> ''}''"
  using assms by (auto simp: idv_of_def id_of_Inr split: if_splits)

lemma labels_Cons:
  assumes "map f (v # vs) = map Inr ls"
  shows "\<exists>l ls'. ls = l # ls' \<and> f v = Inr l \<and> map f vs = map Inr ls'"
  using assms by (cases ls) auto

lemma labels_length: "map f vs = map Inr ls \<Longrightarrow> length ls = length vs"
  by (metis length_map)

lemma labels_nth:
  assumes "map f vs = map Inr ls" and "i < length vs"
  shows "f (vs ! i) = Inr (ls ! i)"
proof -
  have "map f vs ! i = map Inr ls ! i"
    by (simp add: assms(1))
  then show ?thesis
    using assms(2) labels_length [OF assms(1)] by simp
qed

lemma labels_null_free:
  assumes "map idv_of vs = map Inr ls" and "JNull \<notin> set vs"
  shows "map id_of vs = map Inr ls"
proof -
  have "map id_of vs = map idv_of vs"
    using assms(2) by (induction vs) (auto simp: idv_of_def)
  then show ?thesis
    by (simp add: assms(1))
qed

lemma labels_null_blank:
  assumes "map idv_of vs = map Inr ls" and "i < length vs" and "vs ! i = JNull"
  shows "ls ! i = []"
  using labels_nth [OF assms(1,2)] by (simp add: assms(3) idv_of_def)

lemma text_data_js_String:
  "js_String v = Inr s \<Longrightarrow> text_data v = s"
  "js_String_elements vs = Inr ss
   \<Longrightarrow> map (\<lambda>v. if v = JUndefined \<or> v = JNull then [] else text_data v) vs = ss"
  by (induction v and vs arbitrary: s and ss rule: js_String_js_String_elements.induct)
     (auto split: sum.splits if_splits)

subsection \<open>Property boxes and primitives\<close>

lemma drawProperties_eq:
  assumes "id_of id' = Inr idt" and "getTextLength_of type' = Inr tlen"
  shows "drawProperties m id' type' x y w =
    Inr (m\<lparr>svg := svg m @
      [Text (if id' = JNull then [] else idt)
         (x + max (prop_min_width m) (getTextLength idt + 10) / 2)
         (y + font_size m * (3 / 2))
         (if id_color m = [] then text_color m else id_color m) ''middle'',
       Text (text_data type') (x + w - max (prop_min_width m) (tlen + 10) / 2)
         (y + font_size m * (3 / 2))
         (if value_color m = [] then text_color m else value_color m) ''middle'',
       Rect x y (max (prop_min_width m) (getTextLength idt + 10)) (prop_min_height m),
       Rect (x + w - max (prop_min_width m) (tlen + 10)) y
         (max (prop_min_width m) (tlen + 10)) (prop_min_height m)]\<rparr>)"
  using assms by (simp add: drawProperties_def Let_def drawRect_def drawText_def)

lemma drawProperties_ex:
  assumes "id_of id' = Inr idt" and "getTextLength_of type' = Inr tlen"
  shows "\<exists>ps. drawProperties m id' type' x y w = Inr (m\<lparr>svg := svg m @ ps\<rparr>)
     \<and> rects ps = [Rect x y (max (prop_min_width m) (getTextLength idt + 10))
                      (prop_min_height m),
                    Rect (x + w - max (prop_min_width m) (tlen + 10)) y
                      (max (prop_min_width m) (tlen + 10)) (prop_min_height m)]
     \<and> map content (texts ps) = [if id' = JNull then [] else idt, text_data type']"
  unfolding drawProperties_eq [OF assms]
  by (intro exI conjI, rule refl) simp_all

lemma drawProperties_throws:
  "id_of id' = Inl e \<Longrightarrow> drawProperties m id' type' x y w = Inl (e, m)"
  by (simp add: drawProperties_def)

lemma drawProperties_prefix:
  "prefix (svg m) (surface (drawProperties m id' type' x y w))"
  by (simp add: drawProperties_def Let_def drawRect_def drawText_def split: sum.splits)

lemma drawProperties_surface_app:
  assumes "svg m3 = s @ rest"
  shows "prefix s (surface (drawProperties m3 id' type' x y w))"
proof -
  have "prefix (s @ rest) (surface (drawProperties m3 id' type' x y w))"
    using drawProperties_prefix [of m3 id' type' x y w] by (simp add: assms)
  then show ?thesis by (rule append_prefixD)
qed

lemma drawPrimitive_throws:
  "js_String val = Inl e \<Longrightarrow> drawPrimitive m x y type' id' val = Inl (e, m)"
  by (simp add: drawPrimitive_def)

lemma drawPrimitive_unfold:
  assumes "js_String val = Inr s"
    and "(if type' = JStr ''bool'' then Inr (Some (if truthy val then ''True'' else ''False''))
          else json_stringify val) = Inr dt"
  shows "drawPrimitive m x y type' id' val =
     drawProperties
       (m\<lparr>svg := svg m
          @ [Rect x y (max (obj_min_width m) (getTextLength s + obj_x_padding m))
               (obj_min_height m)]
          @ (if js_includes immutable type'
             then [Rect (x - double_rect_sep m) (y - double_rect_sep m)
                     (max (obj_min_width m) (getTextLength s + obj_x_padding m)
                      + 2 * double_rect_sep m)
                     (obj_min_height m + 2 * double_rect_sep m)]
             else [])
          @ (if val \<noteq> JNull \<and> val \<noteq> JUndefined
             then [Text (case dt of None \<Rightarrow> ''undefined'' | Some t \<Rightarrow> t)
                     (x + max (obj_min_width m) (getTextLength s + obj_x_padding m) / 2)
                     (y + (obj_min_height m + prop_min_height m) / 2)
                     (if value_color m = [] then text_color m else value_color m) ''middle'']
             else [])\<rparr>)
       id' type' x y (max (obj_min_width m) (getTextLength s + obj_x_padding m))"
  using assms(2)
  by (simp add: drawPrimitive_def assms(1) Let_def drawRect_def drawText_def
      del: json_stringify.simps)

lemma drawPrimitive_first:
  assumes "js_String val = Inr s"
  shows "prefix (svg m @ [Rect x y (max (obj_min_width m) (getTextLength s + obj_x_padding m))
                      (obj_min_height m)])
     (surface (drawPrimitive m x y type' id' val))"
proof (cases "if type' = JStr ''bool''
              then Inr (Some (if truthy val then ''True'' else ''False''))
              else json_stringify val")
  case (Inl e)
  then show ?thesis
    by (simp add: drawPrimitive_def assms Let_def drawRect_def del: json_stringify.simps)
next
  case (Inr dt)
  show ?thesis
    unfolding drawPrimitive_unfold [OF assms Inr]
    by (rule drawProperties_surface_app) simp
qed

lemma drawPrimitive_str_eq:
  assumes "js_String val = Inr s" and "id_of id' = Inr idt"
    and "(if t = ''bool'' then Inr (Some (if truthy val then ''True'' else ''False''))
          else json_stringify val) = Inr dt"
  shows "drawPrimitive m x y (JStr t) id' val =
     Inr (m\<lparr>svg := svg m
       @ [Rect x y (max (obj_min_width m) (getTextLength s + obj_x_padding m))
            (obj_min_height m)]
       @ (if t \<in> set immutable
          then [Rect (x - double_rect_sep m) (y - double_rect_sep m)
                  (max (obj_min_width m) (getTextLength s + obj_x_padding m)
                   + 2 * double_rect_sep m)
                  (obj_min_height m + 2 * double_rect_sep m)]
          else [])
       @ (if val \<noteq> JNull \<and> val \<noteq> JUndefined
          then [Text (case dt of None \<Rightarrow> ''undefined'' | Some u \<Rightarrow> u)
                  (x + max (obj_min_width m) (getTextLength s + obj_x_padding m) / 2)
                  (y + (obj_min_height m + prop_min_height m) / 2)
                  (if value_color m = [] then text_color m else value_color m) ''middle'']
          else [])
       @ [Text (if id' = JNull then [] else idt)
            (x + max (prop_min_width m) (getTextLength idt + 10) / 2)
            (y + font_size m * (3 / 2))
            (if id_color m = [] then text_color m else id_color m) ''middle'',
          Text t
            (x + max (obj_min_width m) (getTextLength s + obj_x_padding m)
             - max (prop_min_width m) (getTextLength t + 10) / 2)
            (y + font_size m * (3 / 2))
            (if value_color m = [] then text_color m else value_color m) ''middle'',
          Rect x y (max (prop_min_width m) (getTextLength idt + 10)) (prop_min_height m),
          Rect (x + max (obj_min_width m) (getTextLength s + obj_x_padding m)
                - max (prop_min_width m) (getTextLength t + 10)) y
            (max (prop_min_width m) (getTextLength t + 10)) (prop_min_height m)]\<rparr>)"
proof -
  have d: "(if JStr t = JStr ''bool''
            then Inr (Some (if truthy val then ''True'' else ''False''))
            else json_stringify val) = Inr dt"
    using assms(3) by simp
  have l: "getTextLength_of (JStr t) = Inr (getTextLength t)"
    by simp
  show ?thesis
    unfolding drawPrimitive_unfold [OF assms(1) d] drawProperties_eq [OF assms(2) l]
    by (simp add: js_includes_def image_iff)
qed

lemma primitive_type_dispatch:
  assumes "t \<in> set immutable" and "t \<noteq> ''tuple''"
  shows "drawObject m x y (JStr t) id' val si = drawPrimitive m x y (JStr t) id' val"
  using assms by (auto simp: drawObject_def js_includes_def immutable_def collections_def)

subsection \<open>Sequences and sets\<close>

lemma add_item_widths_sum:
  assumes "map idv_of vs = map Inr ls"
  shows "add_item_widths m vs b
   = Inr (b + sum_list (map (\<lambda>l. max (item_min_width m) (getTextLength l + 10)) ls))"
  using assms
proof (induction vs arbitrary: b ls)
  case Nil
  then show ?case by simp
next
  case (Cons v vs)
  obtain l ls' where ls: "ls = l # ls'" and l: "idv_of v = Inr l"
    and rest: "map idv_of vs = map Inr ls'"
    using labels_Cons [OF Cons.prems] by blast
  show ?case
    by (simp add: l ls Cons.IH [OF rest] add.assoc)
qed

lemma add_item_widths_throws:
  "add_item_widths m vs b = Inl e \<Longrightarrow> \<exists>v \<in> set vs. idv_of v = Inl e"
  by (induction vs arbitrary: b) (auto split: sum.splits)

lemma drawSequence_items_ok:
  assumes "map idv_of vs = map Inr ls"
  shows "\<exists>m'. drawSequence_items m iy sh vs i cx = Inr m' \<and> extends m m'
    \<and> length (rects (svg m')) = length (rects (svg m)) + length vs
    \<and> map content (texts (svg m')) = map content (texts (svg m))
        @ concat (map (\<lambda>(j, l). if sh then [l, decimal j] else [l]) (enumerate i ls))"
  using assms
proof (induction vs arbitrary: m i cx ls)
  case Nil
  then show ?case by (simp add: extends_refl)
next
  case (Cons v vs)
  obtain l ls' where ls: "ls = l # ls'" and l: "idv_of v = Inr l"
    and rest: "map idv_of vs = map Inr ls'"
    using labels_Cons [OF Cons.prems] by blast
  define W where "W = max (item_min_width m) (getTextLength l + 10)"
  define m2 where "m2 = drawText (drawRect m cx iy W (item_min_height m)) l (cx + W / 2)
      (iy + item_min_height m / 2 + font_size m / 4) (id_color m) None"
  define m3 where "m3 = (if sh then drawText m2 (decimal i) (cx + W / 2)
      (iy - item_min_height m / 4) (text_color m) None else m2)"
  have step: "drawSequence_items m iy sh (v # vs) i cx
              = drawSequence_items m3 iy sh vs (Suc i) (cx + W)"
    by (simp add: l m3_def m2_def W_def Let_def)
  have e: "extends m m3"
    by (simp add: m3_def m2_def extends_intros)
  have r3: "length (rects (svg m3)) = length (rects (svg m)) + 1"
    by (simp add: m3_def m2_def drawRect_def drawText_def Let_def)
  have t3: "map content (texts (svg m3))
            = map content (texts (svg m)) @ (if sh then [l, decimal i] else [l])"
    by (simp add: m3_def m2_def drawRect_def drawText_def Let_def)
  obtain m' where eq: "drawSequence_items m3 iy sh vs (Suc i) (cx + W) = Inr m'"
    and e': "extends m3 m'"
    and r': "length (rects (svg m')) = length (rects (svg m3)) + length vs"
    and t': "map content (texts (svg m')) = map content (texts (svg m3))
        @ concat (map (\<lambda>(j, l). if sh then [l, decimal j] else [l]) (enumerate (Suc i) ls'))"
    using Cons.IH [OF rest, of m3 "Suc i" "cx + W"] by blast
  show ?case
  proof (intro exI conjI)
    show "drawSequence_items m iy sh (v # vs) i cx = Inr m'"
      unfolding step by (rule eq)
    show "extends m m'"
      by (rule extends_trans [OF e e'])
    show "length (rects (svg m')) = length (rects (svg m)) + length (v # vs)"
      by (simp add: r' r3)
    show "map content (texts (svg m')) = map content (texts (svg m))
        @ concat (map (\<lambda>(j, l). if sh then [l, decimal j] else [l]) (enumerate i ls))"
      by (simp add: t' t3 ls)
  qed
qed

lemma drawSequence_ok:
  fixes m x y type' id' vs sh ls idt
  assumes labels: "map idv_of vs = map Inr ls" and idt: "id_of id' = Inr idt"
  defines "W \<equiv> max (obj_min_width m)
      (obj_x_padding m * 2
       + sum_list (map (\<lambda>l. max (item_min_width m) (getTextLength l + 10)) ls))"
    and "H \<equiv> (if truthy sh then obj_min_height m + list_index_sep m else obj_min_height m)"
  defines "outer \<equiv> Rect x y W H # (if js_includes immutable type'
             then [Rect (x - double_rect_sep m) (y - double_rect_sep m)
                     (W + 2 * double_rect_sep m) (H + 2 * double_rect_sep m)]
             else [])"
  shows "\<exists>m'. drawSequence m x y type' id' (JArr vs) sh = Inr m' \<and> extends m m'
    \<and> prefix (svg m @ outer) (svg m')
    \<and> length (rects (svg m')) = length (rects (svg m)) + length outer + length vs + 2
    \<and> map content (texts (svg m')) = map content (texts (svg m))
           @ concat (map (\<lambda>(j, l). if truthy sh then [l, decimal j] else [l])
                       (enumerate 0 ls))
           @ [if id' = JNull then [] else idt,
              if type' = JStr ''list'' then ''list'' else ''tuple'']"
proof -
  define m2 where "m2 = m\<lparr>svg := svg m @ outer\<rparr>"
  define item_y where "item_y = (if truthy sh
      then y + prop_min_height m + (obj_min_height m - prop_min_height m - item_min_height m) / 2
           + list_index_sep m
      else y + prop_min_height m + (obj_min_height m - prop_min_height m - item_min_height m) / 2)"
  define label where "label = (if type' = JStr ''list'' then ''list'' else ''tuple'')"
  obtain m3 where items: "drawSequence_items m2 item_y (truthy sh) vs 0 (x + item_min_width m / 2)
                          = Inr m3"
    and e3: "extends m2 m3"
    and rs3': "length (rects (svg m3)) = length (rects (svg m2)) + length vs"
    and ts3': "map content (texts (svg m3)) = map content (texts (svg m2))
        @ concat (map (\<lambda>(j, l). if truthy sh then [l, decimal j] else [l]) (enumerate 0 ls))"
    using drawSequence_items_ok [OF labels, of m2 item_y "truthy sh" 0 "x + item_min_width m / 2"]
    by blast
  have eq: "drawSequence m x y type' id' (JArr vs) sh = drawProperties m3 id' (JStr label) x y W"
    using items
    by (cases "truthy sh"; cases "js_includes immutable type'"; cases "type' = JStr ''list''")
       (simp_all add: drawSequence_def add_item_widths_sum [OF labels] Let_def drawRect_def
          m2_def item_y_def label_def outer_def W_def H_def)
  have e2: "extends m m2"
    by (simp add: m2_def extends_append)
  have svg2: "svg m2 = svg m @ outer"
    by (simp add: m2_def)
  have len_label: "getTextLength_of (JStr label) = Inr (getTextLength label)"
    by simp
  obtain ps where r: "drawProperties m3 id' (JStr label) x y W = Inr (m3\<lparr>svg := svg m3 @ ps\<rparr>)"
    and rp: "length (rects ps) = 2"
    and tp: "map content (texts ps) = [if id' = JNull then [] else idt, label]"
    using drawProperties_ex [OF idt len_label, of m3 x y W] by auto
  have rs3: "length (rects (svg m3)) = length (rects (svg m)) + length outer + length vs"
    by (simp add: rs3' svg2 outer_def)
  have ts3: "map content (texts (svg m3)) = map content (texts (svg m))
      @ concat (map (\<lambda>(j, l). if truthy sh then [l, decimal j] else [l]) (enumerate 0 ls))"
    by (simp add: ts3' svg2 outer_def)
  obtain zs where zs: "svg m3 = (svg m @ outer) @ zs"
    using extends_prefix [OF e3] by (auto simp: svg2 prefix_def)
  show ?thesis
  proof (intro exI conjI)
    show "drawSequence m x y type' id' (JArr vs) sh = Inr (m3\<lparr>svg := svg m3 @ ps\<rparr>)"
      unfolding eq by (rule r)
    show "extends m (m3\<lparr>svg := svg m3 @ ps\<rparr>)"
      by (rule extends_trans [OF e2 extends_trans [OF e3 extends_append]])
    show "prefix (svg m @ outer) (svg (m3\<lparr>svg := svg m3 @ ps\<rparr>))"
      by (simp add: zs)
    show "length (rects (svg (m3\<lparr>svg := svg m3 @ ps\<rparr>)))
          = length (rects (svg m)) + length outer + length vs + 2"
      by (simp add: rs3 rp)
    show "map content (texts (svg (m3\<lparr>svg := svg m3 @ ps\<rparr>))) = map content (texts (svg m))
           @ concat (map (\<lambda>(j, l). if truthy sh then [l, decimal j] else [l])
                       (enumerate 0 ls))
           @ [if id' = JNull then [] else idt,
              if type' = JStr ''list'' then ''list'' else ''tuple'']"
      by (simp add: ts3 tp label_def)
  qed
qed

lemma drawSet_items_ok:
  assumes "map idv_of vs = map Inr ls"
  shows "\<exists>m'. drawSet_items m iy ity vs i cx = Inr m' \<and> extends m m'
    \<and> length (rects (svg m')) = length (rects (svg m)) + length vs
    \<and> count_text '','' (svg m')
        = count_text '','' (svg m) + (if i > 0 then length vs else length vs - 1)
    \<and> count_text ''{'' (svg m') = count_text ''{'' (svg m)
    \<and> count_text ''}'' (svg m') = count_text ''}'' (svg m)"
  using assms
proof (induction vs arbitrary: m i cx ls)
  case Nil
  then show ?case by (simp add: extends_refl)
next
  case (Cons v vs)
  obtain l ls' where ls: "ls = l # ls'" and l: "idv_of v = Inr l"
    and rest: "map idv_of vs = map Inr ls'"
    using labels_Cons [OF Cons.prems] by blast
  note ng = idv_of_not_glyph [OF l]
  define W where "W = max (item_min_width m) (getTextLength l + 10)"
  define m2 where "m2 = drawText (drawRect m cx iy W (item_min_height m)) l (cx + W / 2)
      ity (id_color m) None"
  define m3 where "m3 = (if i > 0 then drawText m2 '','' (cx - item_min_width m / 8) ity
      (text_color m) None else m2)"
  have step: "drawSet_items m iy ity (v # vs) i cx
              = drawSet_items m3 iy ity vs (Suc i) (cx + W + item_min_height m / 4)"
    by (simp add: l m3_def m2_def W_def Let_def)
  have e: "extends m m3"
    by (simp add: m3_def m2_def extends_intros)
  have r3: "length (rects (svg m3)) = length (rects (svg m)) + 1"
    by (simp add: m3_def m2_def drawRect_def drawText_def Let_def)
  have c3: "count_text '','' (svg m3) = count_text '','' (svg m) + (if i > 0 then 1 else 0)"
    "count_text ''{'' (svg m3) = count_text ''{'' (svg m)"
    "count_text ''}'' (svg m3) = count_text ''}'' (svg m)"
    using ng by (simp_all add: m3_def m2_def drawRect_def drawText_def Let_def)
  obtain m' where eq: "drawSet_items m3 iy ity vs (Suc i) (cx + W + item_min_height m / 4) = Inr m'"
    and e': "extends m3 m'"
    and r': "length (rects (svg m')) = length (rects (svg m3)) + length vs"
    and c': "count_text '','' (svg m') = count_text '','' (svg m3) + length vs"
      "count_text ''{'' (svg m') = count_text ''{'' (svg m3)"
      "count_text ''}'' (svg m') = count_text ''}'' (svg m3)"
    using Cons.IH [OF rest, of m3 "Suc i" "cx + W + item_min_height m / 4"] by auto
  show ?case
  proof (intro exI conjI)
    show "drawSet_items m iy ity (v # vs) i cx = Inr m'"
      unfolding step by (rule eq)
    show "extends m m'"
      by (rule extends_trans [OF e e'])
    show "length (rects (svg m')) = length (rects (svg m)) + length (v # vs)"
      by (simp add: r' r3)
    show "count_text '','' (svg m')
          = count_text '','' (svg m) + (if i > 0 then length (v # vs) else length (v # vs) - 1)"
      by (simp add: c' c3)
    show "count_text ''{'' (svg m') = count_text ''{'' (svg m)"
      by (simp add: c' c3)
    show "count_text ''}'' (svg m') = count_text ''}'' (svg m)"
      by (simp add: c' c3)
  qed
qed

lemma drawSet_ok:
  fixes m x y id' vs ls idt
  assumes labels: "map idv_of vs = map Inr ls" and idt: "id_of id' = Inr idt"
  defines "W \<equiv> max (obj_min_width m)
        (obj_x_padding m * 2
         + sum_list (map (\<lambda>l. max (item_min_width m) (getTextLength l + 10)) ls))
      + ((of_nat (length vs) - 1) * item_min_width m) / 4"
  shows "\<exists>m'. drawSet m x y id' (JArr vs) = Inr m' \<and> extends m m'
    \<and> prefix (svg m @ [Rect x y W (obj_min_height m)]) (svg m')
    \<and> length (rects (svg m')) = length (rects (svg m)) + 1 + length vs + 2
    \<and> count_text '','' (svg m') = count_text '','' (svg m) + (length vs - 1)
    \<and> count_text ''{'' (svg m') = count_text ''{'' (svg m) + 1
    \<and> count_text ''}'' (svg m') = count_text ''}'' (svg m) + 1"
proof -
  define m1 where "m1 = m\<lparr>svg := svg m @ [Rect x y W (obj_min_height m)]\<rparr>"
  define item_y where "item_y = y + prop_min_height m
      + (obj_min_height m - prop_min_height m - item_min_height m) / 2"
  define item_text_y where "item_text_y = item_y + item_min_height m / 2 + font_size m / 4"
  define braces where "braces =
    [Text ''{'' (x + item_min_width m / 4) item_text_y
       (text_color m) ''middle'',
     Text ''}'' (x + W - item_min_width m / 4) item_text_y (text_color m) ''middle'']"
  obtain m2 where items: "drawSet_items m1 item_y item_text_y vs 0 (x + item_min_width m / 2)
                          = Inr m2"
    and e2: "extends m1 m2"
    and rs2: "length (rects (svg m2)) = length (rects (svg m1)) + length vs"
    and cs2: "count_text '','' (svg m2) = count_text '','' (svg m1) + (length vs - 1)"
      "count_text ''{'' (svg m2) = count_text ''{'' (svg m1)"
      "count_text ''}'' (svg m2) = count_text ''}'' (svg m1)"
    using drawSet_items_ok [OF labels, of m1 item_y item_text_y 0 "x + item_min_width m / 2"]
    by auto
  have e1: "extends m m1"
    by (simp add: m1_def extends_append)
  have svg1: "svg m1 = svg m @ [Rect x y W (obj_min_height m)]"
    by (simp add: m1_def)
  have len_label: "getTextLength_of (JStr ''set'') = Inr (getTextLength ''set'')"
    by simp
  obtain ps where r: "drawProperties m2 id' (JStr ''set'') x y W = Inr (m2\<lparr>svg := svg m2 @ ps\<rparr>)"
    and rp: "length (rects ps) = 2"
    and tp: "map content (texts ps) = [if id' = JNull then [] else idt, ''set'']"
    using drawProperties_ex [OF idt len_label, of m2 x y W] by auto
  have eq: "drawSet m x y id' (JArr vs) = Inr (m2\<lparr>svg := svg m2 @ ps @ braces\<rparr>)"
    using r items extends_fields(1) [OF extends_trans [OF e1 e2]]
    by (simp add: drawSet_def add_item_widths_sum [OF labels] Let_def drawRect_def drawText_def
        m1_def [symmetric] item_y_def [symmetric] item_text_y_def [symmetric] W_def [symmetric]
        braces_def)
  obtain zs where zs: "svg m2 = (svg m @ [Rect x y W (obj_min_height m)]) @ zs"
    using extends_prefix [OF e2] by (auto simp: svg1 prefix_def)
  have cp: "count_text '','' ps = 0" "count_text ''{'' ps = 0" "count_text ''}'' ps = 0"
    using id_of_not_glyph [OF idt]
    by (simp_all add: count_text_texts tp)
  show ?thesis
  proof (intro exI conjI)
    show "drawSet m x y id' (JArr vs) = Inr (m2\<lparr>svg := svg m2 @ ps @ braces\<rparr>)"
      by (rule eq)
    show "extends m (m2\<lparr>svg := svg m2 @ ps @ braces\<rparr>)"
      by (rule extends_trans [OF e1 extends_trans [OF e2 extends_append]])
    show "prefix (svg m @ [Rect x y W (obj_min_height m)]) (svg (m2\<lparr>svg := svg m2 @ ps @ braces\<rparr>))"
      by (simp add: zs)
    show "length (rects (svg (m2\<lparr>svg := svg m2 @ ps @ braces\<rparr>)))
          = length (rects (svg m)) + 1 + length vs + 2"
      by (simp add: rs2 svg1 rp braces_def)
    show "count_text '','' (svg (m2\<lparr>svg := svg m2 @ ps @ braces\<rparr>))
          = count_text '','' (svg m) + (length vs - 1)"
      by (simp add: cs2 svg1 cp braces_def)
    show "count_text ''{'' (svg (m2\<lparr>svg := svg m2 @ ps @ braces\<rparr>))
          = count_text ''{'' (svg m) + 1"
      by (simp add: cs2 svg1 cp braces_def)
    show "count_text ''}'' (svg (m2\<lparr>svg := svg m2 @ ps @ braces\<rparr>))
          = count_text ''}'' (svg m) + 1"
      by (simp add: cs2 svg1 cp braces_def)
  qed
qed

subsection \<open>Dictionaries and classes\<close>

lemma map_upt_shift:
  "map f [0..<Suc n] = f 0 # map (\<lambda>i. f (Suc i)) [0..<n]"
  by (simp add: map_upt_Suc del: upt_Suc)

lemma Max_insert_max:
  assumes "finite S"
  shows "Max (insert (max a b) S) = Max (insert a (insert b S))"
  using assms by (cases "S = {}") (simp_all add: max.assoc)

lemma drawDict_keys_ok:
  assumes "map (\<lambda>(k, v). idv_of v) kvs = map Inr ls"
  shows "\<exists>m'. drawDict_keys m x kvs cy bw bh
      = Inr (m',
             Max (insert bw
               ((\<lambda>((k, v), l). obj_x_padding m * 2
                    + max (item_min_width m) (getTextLength (''id'' @ k @ ''5''))
                    + max (item_min_width m) (getTextLength (l @ ''5''))
                    + 2 * font_size m) ` set (zip kvs ls))),
             bh + of_nat (length kvs) * ((3 / 2) * item_min_height m))
    \<and> extends m m'
    \<and> rects (svg m') = rects (svg m)
        @ map (\<lambda>i. Rect (x + obj_x_padding m) (cy + of_nat i * (item_min_height m * (3 / 2)))
                     (max (item_min_width m) (getTextLength (''id'' @ fst (kvs ! i) @ ''5'')))
                     (item_min_height m))
            [0..<length kvs]"
  using assms
proof (induction kvs arbitrary: m cy bw bh ls)
  case Nil
  then show ?case by (simp add: extends_refl)
next
  case (Cons kv kvs)
  obtain k v where kv: "kv = (k, v)" by (cases kv)
  obtain l ls' where ls: "ls = l # ls'" and l: "idv_of v = Inr l"
    and rest: "map (\<lambda>(k, v). idv_of v) kvs = map Inr ls'"
    using labels_Cons [OF Cons.prems] by (auto simp: kv)
  let ?f = "\<lambda>((k, v), l). obj_x_padding m * 2
                    + max (item_min_width m) (getTextLength (''id'' @ k @ ''5''))
                    + max (item_min_width m) (getTextLength (l @ ''5''))
                    + 2 * font_size m"
  define kb where "kb = max (item_min_width m) (getTextLength (''id'' @ k @ ''5''))"
  define m2 where "m2 = drawText (drawRect m (x + obj_x_padding m) cy kb (item_min_height m))
      (''id'' @ k) (x + item_min_width m + 2)
      (cy + item_min_height m / 2 + font_size m / 4) (id_color m) None"
  have step: "drawDict_keys m x (kv # kvs) cy bw bh
      = drawDict_keys m2 x kvs (cy + item_min_height m * (3 / 2))
          (max bw (?f ((k, v), l))) (bh + (3 / 2) * item_min_height m)"
    by (simp add: kv l m2_def kb_def Let_def)
  have e: "extends m m2"
    by (simp add: m2_def extends_intros)
  note f2 = extends_fields [OF e]
  have r2: "rects (svg m2) = rects (svg m) @ [Rect (x + obj_x_padding m) cy kb (item_min_height m)]"
    by (simp add: m2_def drawRect_def drawText_def Let_def)
  obtain m' where eq: "drawDict_keys m2 x kvs (cy + item_min_height m * (3 / 2))
          (max bw (?f ((k, v), l))) (bh + (3 / 2) * item_min_height m)
      = Inr (m', Max (insert (max bw (?f ((k, v), l))) (?f ` set (zip kvs ls'))),
             bh + (3 / 2) * item_min_height m
             + of_nat (length kvs) * ((3 / 2) * item_min_height m))"
    and e': "extends m2 m'"
    and r': "rects (svg m') = rects (svg m2)
        @ map (\<lambda>i. Rect (x + obj_x_padding m)
                     (cy + item_min_height m * (3 / 2) + of_nat i * (item_min_height m * (3 / 2)))
                     (max (item_min_width m) (getTextLength (''id'' @ fst (kvs ! i) @ ''5'')))
                     (item_min_height m))
            [0..<length kvs]"
    using Cons.IH [OF rest, of m2 "cy + item_min_height m * (3 / 2)"
        "max bw (?f ((k, v), l))" "bh + (3 / 2) * item_min_height m"]
    unfolding f2 by blast
  have mx: "Max (insert (max bw (?f ((k, v), l))) (?f ` set (zip kvs ls')))
            = Max (insert bw (?f ` set (zip (kv # kvs) ls)))"
    by (simp add: Max_insert_max kv ls)
  have ht: "bh + (3 / 2) * item_min_height m + of_nat (length kvs) * ((3 / 2) * item_min_height m)
            = bh + of_nat (length (kv # kvs)) * ((3 / 2) * item_min_height m)"
    by (simp add: algebra_simps)
  show ?case
  proof (intro exI conjI)
    show "drawDict_keys m x (kv # kvs) cy bw bh
      = Inr (m', Max (insert bw (?f ` set (zip (kv # kvs) ls))),
             bh + of_nat (length (kv # kvs)) * ((3 / 2) * item_min_height m))"
      unfolding step eq mx ht by (rule refl)
    show "extends m m'"
      by (rule extends_trans [OF e e'])
    show "rects (svg m') = rects (svg m)
        @ map (\<lambda>i. Rect (x + obj_x_padding m) (cy + of_nat i * (item_min_height m * (3 / 2)))
                     (max (item_min_width m)
                        (getTextLength (''id'' @ fst ((kv # kvs) ! i) @ ''5'')))
                     (item_min_height m))
            [0..<length (kv # kvs)]"
      by (simp add: r' r2 kb_def kv map_upt_shift algebra_simps del: upt_Suc)
  qed
qed

lemma drawDict_values_ok:
  assumes "map (\<lambda>(k, v). idv_of v) kvs = map Inr ls"
  shows "\<exists>m'. drawDict_values m x bw kvs cy = Inr m' \<and> extends m m'
    \<and> rects (svg m') = rects (svg m)
        @ map (\<lambda>i. Rect (x + bw / 2 + font_size m) (cy + of_nat i * (item_min_height m * (3 / 2)))
                     (max (item_min_width m) (getTextLength (ls ! i @ ''5'')))
                     (item_min_height m))
            [0..<length kvs]"
  using assms
proof (induction kvs arbitrary: m cy ls)
  case Nil
  then show ?case by (simp add: extends_refl)
next
  case (Cons kv kvs)
  obtain k v where kv: "kv = (k, v)" by (cases kv)
  obtain l ls' where ls: "ls = l # ls'" and l: "idv_of v = Inr l"
    and rest: "map (\<lambda>(k, v). idv_of v) kvs = map Inr ls'"
    using labels_Cons [OF Cons.prems] by (auto simp: kv)
  define vb where "vb = max (item_min_width m) (getTextLength (l @ ''5''))"
  define m3 where "m3 = drawText
      (drawRect
         (drawText m '':'' (x + bw / 2) (cy + item_min_height m / 2 + font_size m / 4)
            (value_color m) None)
         (x + bw / 2 + font_size m) cy vb (item_min_height m))
      l (x + bw / 2 + font_size m + vb / 2)
      (cy + item_min_height m / 2 + font_size m / 4) (id_color m) None"
  have step: "drawDict_values m x bw (kv # kvs) cy
      = drawDict_values m3 x bw kvs (cy + item_min_height m * (3 / 2))"
    by (simp add: kv l m3_def vb_def Let_def)
  have e: "extends m m3"
    by (simp add: m3_def extends_intros)
  note f3 = extends_fields [OF e]
  have r3: "rects (svg m3)
      = rects (svg m) @ [Rect (x + bw / 2 + font_size m) cy vb (item_min_height m)]"
    by (simp add: m3_def drawRect_def drawText_def Let_def)
  obtain m' where eq: "drawDict_values m3 x bw kvs (cy + item_min_height m * (3 / 2)) = Inr m'"
    and e': "extends m3 m'"
    and r': "rects (svg m') = rects (svg m3)
        @ map (\<lambda>i. Rect (x + bw / 2 + font_size m)
                     (cy + item_min_height m * (3 / 2) + of_nat i * (item_min_height m * (3 / 2)))
                     (max (item_min_width m) (getTextLength (ls' ! i @ ''5'')))
                     (item_min_height m))
            [0..<length kvs]"
    using Cons.IH [OF rest, of m3 "cy + item_min_height m * (3 / 2)"]
    unfolding f3 by blast
  show ?case
  proof (intro exI conjI)
    show "drawDict_values m x bw (kv # kvs) cy = Inr m'"
      unfolding step by (rule eq)
    show "extends m m'"
      by (rule extends_trans [OF e e'])
    show "rects (svg m') = rects (svg m)
        @ map (\<lambda>i. Rect (x + bw / 2 + font_size m) (cy + of_nat i * (item_min_height m * (3 / 2)))
                     (max (item_min_width m) (getTextLength (ls ! i @ ''5'')))
                     (item_min_height m))
            [0..<length (kv # kvs)]"
      by (simp add: r' r3 vb_def ls map_upt_shift algebra_simps del: upt_Suc)
  qed
qed

lemma drawDict_ok:
  fixes m x y id' obj ls idt
  defines "kvs \<equiv> js_entries obj"
  assumes labels: "map (\<lambda>(k, v). idv_of v) kvs = map Inr ls" and idt: "id_of id' = Inr idt"
  defines "cy \<equiv> y + prop_min_height m + item_min_height m / 2"
  defines "W \<equiv> Max (insert (obj_min_width m)
       ((\<lambda>((k, v), l). obj_x_padding m * 2
            + max (item_min_width m) (getTextLength (''id'' @ k @ ''5''))
            + max (item_min_width m) (getTextLength (l @ ''5''))
            + 2 * font_size m) ` set (zip kvs ls)))"
  defines "H \<equiv> prop_min_height m + item_min_height m / 2
                 + of_nat (length kvs) * ((3 / 2) * item_min_height m)"
  shows "\<exists>m'. drawDict m x y id' obj = Inr m' \<and> extends m m'
    \<and> rects (svg m') = rects (svg m)
      @ map (\<lambda>i. Rect (x + obj_x_padding m) (cy + of_nat i * (item_min_height m * (3 / 2)))
                  (max (item_min_width m) (getTextLength (''id'' @ fst (kvs ! i) @ ''5'')))
                  (item_min_height m))
          [0..<length kvs]
      @ map (\<lambda>i. Rect (x + W / 2 + font_size m) (cy + of_nat i * (item_min_height m * (3 / 2)))
                  (max (item_min_width m) (getTextLength (ls ! i @ ''5'')))
                  (item_min_height m))
          [0..<length kvs]
      @ [Rect x y W H,
         Rect x y (max (prop_min_width m) (getTextLength idt + 10)) (prop_min_height m),
         Rect (x + W - max (prop_min_width m) (getTextLength ''dict'' + 10)) y
           (max (prop_min_width m) (getTextLength ''dict'' + 10)) (prop_min_height m)]"
proof -
  obtain m1 where keys: "drawDict_keys m x kvs cy (obj_min_width m)
                           (prop_min_height m + item_min_height m / 2) = Inr (m1, W, H)"
    and e1: "extends m m1"
    and r1: "rects (svg m1) = rects (svg m)
      @ map (\<lambda>i. Rect (x + obj_x_padding m) (cy + of_nat i * (item_min_height m * (3 / 2)))
                  (max (item_min_width m) (getTextLength (''id'' @ fst (kvs ! i) @ ''5'')))
                  (item_min_height m))
          [0..<length kvs]"
    using drawDict_keys_ok [OF labels, of m x cy "obj_min_width m"
        "prop_min_height m + item_min_height m / 2"]
    unfolding W_def H_def by blast
  note f1 = extends_fields [OF e1]
  obtain m2 where vals: "drawDict_values m1 x W kvs cy = Inr m2"
    and e2: "extends m1 m2"
    and r2: "rects (svg m2) = rects (svg m1)
      @ map (\<lambda>i. Rect (x + W / 2 + font_size m) (cy + of_nat i * (item_min_height m * (3 / 2)))
                  (max (item_min_width m) (getTextLength (ls ! i @ ''5'')))
                  (item_min_height m))
          [0..<length kvs]"
    using drawDict_values_ok [OF labels, of m1 x W cy] unfolding f1 by blast
  define m3 where "m3 = m2\<lparr>svg := svg m2 @ [Rect x y W H]\<rparr>"
  have e3: "extends m2 m3"
    by (simp add: m3_def extends_append)
  have e13: "extends m m3"
    by (rule extends_trans [OF e1 extends_trans [OF e2 e3]])
  have len_label: "getTextLength_of (JStr ''dict'') = Inr (getTextLength ''dict'')"
    by simp
  obtain ps where r: "drawProperties m3 id' (JStr ''dict'') x y W = Inr (m3\<lparr>svg := svg m3 @ ps\<rparr>)"
    and rp: "rects ps =
       [Rect x y (max (prop_min_width m3) (getTextLength idt + 10)) (prop_min_height m3),
        Rect (x + W - max (prop_min_width m3) (getTextLength ''dict'' + 10)) y
          (max (prop_min_width m3) (getTextLength ''dict'' + 10)) (prop_min_height m3)]"
    using drawProperties_ex [OF idt len_label, of m3 x y W] by auto
  have eq: "drawDict m x y id' obj = drawProperties m3 id' (JStr ''dict'') x y W"
    using keys vals
    by (simp add: drawDict_def Let_def drawRect_def kvs_def [symmetric] cy_def [symmetric] m3_def)
  show ?thesis
  proof (intro exI conjI)
    show "drawDict m x y id' obj = Inr (m3\<lparr>svg := svg m3 @ ps\<rparr>)"
      unfolding eq by (rule r)
    show "extends m (m3\<lparr>svg := svg m3 @ ps\<rparr>)"
      by (rule extends_trans [OF e13 extends_append])
    show "rects (svg (m3\<lparr>svg := svg m3 @ ps\<rparr>)) = rects (svg m)
      @ map (\<lambda>i. Rect (x + obj_x_padding m) (cy + of_nat i * (item_min_height m * (3 / 2)))
                  (max (item_min_width m) (getTextLength (''id'' @ fst (kvs ! i) @ ''5'')))
                  (item_min_height m))
          [0..<length kvs]
      @ map (\<lambda>i. Rect (x + W / 2 + font_size m) (cy + of_nat i * (item_min_height m * (3 / 2)))
                  (max (item_min_width m) (getTextLength (ls ! i @ ''5'')))
                  (item_min_height m))
          [0..<length kvs]
      @ [Rect x y W H,
         Rect x y (max (prop_min_width m) (getTextLength idt + 10)) (prop_min_height m),
         Rect (x + W - max (prop_min_width m) (getTextLength ''dict'' + 10)) y
           (max (prop_min_width m) (getTextLength ''dict'' + 10)) (prop_min_height m)]"
      by (simp add: rp m3_def r2 r1 extends_fields [OF extends_trans [OF e1 e2]])
  qed
qed







section \<open>Text metrics\<close>

text \<open>
  Claim C8. For every string \<open>s\<close>, \<open>getTextLength s\<close> is the number of characters of \<open>s\<close>
  times 12. Hence a string that is not longer than another does not measure more, and the
  measure of a concatenation is the sum of the measures.
\<close>

theorem getTextLength_linear:
  "getTextLength s = of_nat (length s) * 12
   \<and> (length s \<le> length t \<longrightarrow> getTextLength s \<le> getTextLength t)
   \<and> getTextLength (s @ t) = getTextLength s + getTextLength t"
  by (simp add: getTextLength_def algebra_simps)

text \<open>Claim C8 at the strings \<^verbatim>\<open>id7\<close> and \<^verbatim>\<open>bool\<close>.\<close>

theorem getTextLength_linear_witness:
  "length ''id7'' \<le> length ''bool''
   \<and> getTextLength ''id7'' = 36
   \<and> getTextLength ''id7'' \<le> getTextLength ''bool''
   \<and> getTextLength (''id7'' @ ''bool'') = getTextLength ''id7'' + getTextLength ''bool''"
  using getTextLength_linear [of "''id7''" "''bool''"] by simp

section \<open>The id box of a null id\<close>

text \<open>
  Claim C10. A call of \<open>drawProperties\<close> with the id \<^verbatim>\<open>null\<close> draws the empty string as
  the id label, and still sizes the id box by the text \<^verbatim>\<open>idnull\<close>: the width of the box is
  \<open>max prop_min_width (getTextLength ''idnull'' + 10)\<close>, and the blank label is centred in a box
  of that width. Under the default configuration the width is 82.
  This is so for every call that draws: a call whose type has no \<^verbatim>\<open>length\<close> throws before it
  appends a node, and every other call appends exactly the two labels and the two boxes below.
\<close>

theorem drawProperties_null_id:
  fixes m type' x y w
  defines "r \<equiv> drawProperties m JNull type' x y w"
  defines "id_box \<equiv> max (prop_min_width m) (getTextLength ''idnull'' + 10)"
  shows "(case getTextLength_of type' of
            Inl e \<Rightarrow> r = Inl (e, m)
          | Inr tlen \<Rightarrow>
              returns r
              \<and> appended m r
                  = [Text '''' (x + id_box / 2) (y + font_size m * (3 / 2))
                       (if id_color m = '''' then text_color m else id_color m) ''middle'',
                     Text (text_data type') (x + w - max (prop_min_width m) (tlen + 10) / 2)
                       (y + font_size m * (3 / 2))
                       (if value_color m = '''' then text_color m else value_color m) ''middle'',
                     Rect x y id_box (prop_min_height m),
                     Rect (x + w - max (prop_min_width m) (tlen + 10)) y
                       (max (prop_min_width m) (tlen + 10)) (prop_min_height m)])
       \<and> max (prop_min_width config) (getTextLength ''idnull'' + 10) = 82"
proof (cases "getTextLength_of type'")
  case (Inl e)
  then show ?thesis
    by (simp add: r_def drawProperties_def id_of_def Let_def getTextLength_def config_def)
next
  case (Inr tlen)
  have i: "id_of JNull = Inr ''idnull''"
    by (simp add: id_of_def)
  show ?thesis
    by (simp add: Inr r_def id_box_def drawProperties_eq [OF i Inr] appended_def
        getTextLength_def config_def)
qed

text \<open>Claim C10 under the default configuration, for the type \<^verbatim>\<open>int\<close> and for a missing
  type.\<close>

theorem drawProperties_null_id_witness:
  "getTextLength_of (JStr ''int'') = Inr 36
   \<and> returns (drawProperties config JNull (JStr ''int'') 0 0 200)
   \<and> appended config (drawProperties config JNull (JStr ''int'') 0 0 200)
       = [Text '''' 41 30 ''rgb(150, 100, 28)'' ''middle'',
          Text ''int'' 170 30 ''rgb(27, 14, 139)'' ''middle'',
          Rect 0 0 82 50,
          Rect 140 0 60 50]
   \<and> drawProperties config JNull JUndefined 0 0 200 = Inl (TypeError, config)"
  using drawProperties_null_id [of config "JStr ''int''" 0 0 200]
    drawProperties_null_id [of config JUndefined 0 0 200]
  by (simp add: getTextLength_def config_def)

section \<open>The value box of a primitive\<close>

text \<open>
  Claim C7. \<open>drawPrimitive\<close> begins with the conversion of the value to a string. When the
  conversion throws, the call throws with nothing appended. Otherwise, with \<open>s\<close> the string
  of the value, the first node that \<open>drawPrimitive\<close> appends is the value box, at \<open>(x, y)\<close>,
  of width \<open>max obj_min_width (getTextLength s + obj_x_padding)\<close> and of height
  \<open>obj_min_height\<close>; this does not depend on whether the text of the value or the property
  boxes can be drawn afterwards.
  So the width is never below \<open>obj_min_width\<close>, and of two values that have a string the one
  whose string measures less or the same gets a box that is not wider.
  \<open>drawObject\<close> draws every object whose type is not in \<open>collections\<close> in this way.
\<close>

theorem drawPrimitive_box_width:
  fixes m x y type' id' val xb yb typeb idb valb si
  defines "r \<equiv> drawPrimitive m x y type' id' val"
  defines "rb \<equiv> drawPrimitive m xb yb typeb idb valb"
  shows "(case js_String val of
            Inl e \<Rightarrow> r = Inl (e, m)
          | Inr s \<Rightarrow>
              surface r = svg m @ appended m r
              \<and> take 1 (appended m r)
                  = [Rect x y (max (obj_min_width m) (getTextLength s + obj_x_padding m))
                       (obj_min_height m)]
              \<and> obj_min_width m \<le> rect_w (hd (appended m r))
              \<and> (\<forall>sb. js_String valb = Inr sb \<and> getTextLength s \<le> getTextLength sb
                    \<longrightarrow> rect_w (hd (appended m r)) \<le> rect_w (hd (appended m rb))))
       \<and> (\<not> js_includes collections type' \<longrightarrow> drawObject m x y type' id' val si = r)"
proof -
  have hd1: "hd (appended m (drawPrimitive m a b t i v))
             = Rect a b (max (obj_min_width m) (getTextLength u + obj_x_padding m))
                 (obj_min_height m)" if "js_String v = Inr u" for a b t i v u
    using prefix_appended(2) [OF drawPrimitive_first [OF that, of m a b t i]]
    by (cases "appended m (drawPrimitive m a b t i v)") simp_all
  have disp: "\<not> js_includes collections type' \<longrightarrow> drawObject m x y type' id' val si = r"
    by (simp add: drawObject_def r_def)
  show ?thesis
  proof (cases "js_String val")
    case (Inl e)
    then show ?thesis
      using disp by (simp add: r_def drawPrimitive_throws)
  next
    case (Inr s)
    have h: "hd (appended m r)
             = Rect x y (max (obj_min_width m) (getTextLength s + obj_x_padding m))
                 (obj_min_height m)"
      unfolding r_def by (rule hd1 [OF Inr])
    have hb: "hd (appended m rb)
             = Rect xb yb (max (obj_min_width m) (getTextLength sb + obj_x_padding m))
                 (obj_min_height m)" if "js_String valb = Inr sb" for sb
      unfolding rb_def by (rule hd1 [OF that])
    have first: "surface r = svg m @ appended m r"
      "take 1 (appended m r)
         = [Rect x y (max (obj_min_width m) (getTextLength s + obj_x_padding m))
              (obj_min_height m)]"
      using prefix_appended [OF drawPrimitive_first [OF Inr, of m x y type' id']]
      by (simp_all add: r_def)
    have mono: "\<forall>sb. js_String valb = Inr sb \<and> getTextLength s \<le> getTextLength sb
                    \<longrightarrow> rect_w (hd (appended m r)) \<le> rect_w (hd (appended m rb))"
      by (auto simp: h hb max.coboundedI2)
    show ?thesis
      using first mono disp by (simp add: Inr h)
  qed
qed

text \<open>Claim C7 at the values \<^verbatim>\<open>7\<close> (box of the minimum width 200) and a string of 19
  characters (box of width 253), and at two values on which the conversion to a string does
  not give a text: an object with a property \<^verbatim>\<open>toString\<close>, where it throws, and the number
  \<open>10\<^sup>2\<^sup>1\<close>.\<close>

theorem drawPrimitive_box_width_witness:
  "js_String (JNum 7) = Inr ''7''
   \<and> js_String (JStr ''a long string value'') = Inr ''a long string value''
   \<and> getTextLength ''7'' \<le> getTextLength ''a long string value''
   \<and> \<not> js_includes collections (JStr ''int'')
   \<and> take 1 (appended config (drawObject config 0 0 (JStr ''int'') (JNum 1) (JNum 7) JUndefined))
       = [Rect 0 0 200 130]
   \<and> take 1 (appended config (drawPrimitive config 0 0 (JStr ''int'') (JNum 1) (JNum 7)))
       = [Rect 0 0 200 130]
   \<and> take 1 (appended config
         (drawPrimitive config 0 0 (JStr ''str'') (JNum 2) (JStr ''a long string value'')))
       = [Rect 0 0 253 130]
   \<and> rect_w (hd (appended config (drawPrimitive config 0 0 (JStr ''int'') (JNum 1) (JNum 7))))
       \<le> rect_w (hd (appended config
             (drawPrimitive config 0 0 (JStr ''str'') (JNum 2) (JStr ''a long string value''))))
   \<and> js_String (JObj [(''toString'', JNum 1)]) = Inl TypeError
   \<and> drawPrimitive config 0 0 (JStr ''int'') (JNum 1) (JObj [(''toString'', JNum 1)])
       = Inl (TypeError, config)
   \<and> js_String (JNum (10 ^ 21)) = Inl NotModelled
   \<and> drawPrimitive config 0 0 (JStr ''int'') (JNum 1) (JNum (10 ^ 21))
       = Inl (NotModelled, config)"
  using drawPrimitive_box_width
    [where m = config and x = 0 and y = 0 and type' = "JStr ''int''" and id' = "JNum 1"
       and val = "JNum 7" and xb = 0 and yb = 0 and typeb = "JStr ''str''"
       and idb = "JNum 2" and valb = "JStr ''a long string value''" and si = JUndefined]
    drawPrimitive_box_width
    [where m = config and x = 0 and y = 0 and type' = "JStr ''str''" and id' = "JNum 2"
       and val = "JStr ''a long string value''" and xb = 0 and yb = 0
       and typeb = "JStr ''int''" and idb = "JNum 1" and valb = "JNum 7"
       and si = JUndefined]
    drawPrimitive_box_width
    [where m = config and x = 0 and y = 0 and type' = "JStr ''int''" and id' = "JNum 1"
       and val = "JObj [(''toString'', JNum 1)]" and valb = JNull]
    drawPrimitive_box_width
    [where m = config and x = 0 and y = 0 and type' = "JStr ''int''" and id' = "JNum 1"
       and val = "JNum (10 ^ 21)" and valb = JNull]
  by (simp add: getTextLength_def config_def num_str_def safe_integer_def decimal_digit
      digit_def js_includes_def collections_def)

section \<open>Sets\<close>

text \<open>
  Claim C6. Let every element of an array of \<open>n\<close> element ids have a label, and let the id
  have a string form. The label of an element is \<^verbatim>\<open>id<ref>\<close> (\<open>id_of\<close>), blank when the
  element is \<^verbatim>\<open>null\<close>, and exists unless the conversion of the element to a string throws.
  Then \<open>drawSet\<close> returns, and of the nodes it appends
  \<^item> the first is the outer box, of height \<open>obj_min_height\<close> and of width
    \<open>seq_width + (n - 1) * item_min_width / 4\<close>, where \<open>seq_width\<close> is the width
    \<open>drawSequence\<close> gives the same elements: \<open>obj_min_width\<close> or, if that is more,
    \<open>2 * obj_x_padding\<close> plus, for every element, \<open>item_min_width\<close> or the measure of its
    label plus 10;
  \<^item> exactly \<open>n - 1\<close> are commas when there is an element, and none when there is not;
  \<^item> exactly one is \<^verbatim>\<open>{\<close> and exactly one is \<^verbatim>\<open>}\<close>;
  \<^item> exactly \<open>n + 3\<close> are rectangles: the outer box, one box per element, the id box and the
    type box, and no second outer rectangle.
\<close>

theorem drawSet_glyphs_and_width:
  fixes m x y id' vs ls idt
  assumes labels: "map idv_of vs = map Inr ls" and idt: "id_of id' = Inr idt"
  defines "r \<equiv> drawSet m x y id' (JArr vs)"
  defines "seq_width \<equiv> max (obj_min_width m)
      (2 * obj_x_padding m
       + sum_list (map (\<lambda>l. max (item_min_width m) (getTextLength l + 10)) ls))"
  shows "returns r \<and> surface r = svg m @ appended m r
    \<and> take 1 (appended m r)
        = [Rect x y (seq_width + (of_nat (length vs) - 1) * item_min_width m / 4)
             (obj_min_height m)]
    \<and> (vs \<noteq> [] \<longrightarrow> Suc (count_text '','' (appended m r)) = length vs)
    \<and> (vs = [] \<longrightarrow> count_text '','' (appended m r) = 0)
    \<and> count_text ''{'' (appended m r) = 1
    \<and> count_text ''}'' (appended m r) = 1
    \<and> length (rects (appended m r)) = length vs + 3
    \<and> (JNull \<notin> set vs \<longrightarrow> map id_of vs = map Inr ls)
    \<and> (\<forall>i < length vs. vs ! i = JNull \<longrightarrow> ls ! i = '''')"
proof -
  have w: "max (obj_min_width m)
      (obj_x_padding m * 2
       + sum_list (map (\<lambda>l. max (item_min_width m) (getTextLength l + 10)) ls)) = seq_width"
    by (simp add: seq_width_def mult.commute)
  obtain m' where eq: "r = Inr m'" and ext: "extends m m'"
    and pre: "prefix (svg m @ [Rect x y (seq_width + (of_nat (length vs) - 1) * item_min_width m / 4)
                                 (obj_min_height m)]) (svg m')"
    and len: "length (rects (svg m')) = length (rects (svg m)) + (length vs + 3)"
    and commas: "count_text '','' (svg m') = count_text '','' (svg m) + (length vs - 1)"
    and lbrace: "count_text ''{'' (svg m') = count_text ''{'' (svg m) + 1"
    and rbrace: "count_text ''}'' (svg m') = count_text ''}'' (svg m) + 1"
    using drawSet_ok [OF labels idt, of m x y] unfolding w r_def by auto
  have "prefix (svg m @ [Rect x y (seq_width + (of_nat (length vs) - 1) * item_min_width m / 4)
                           (obj_min_height m)]) (surface r)"
    using pre by (simp add: eq)
  note first = prefix_appended [OF this]
  have blank: "\<forall>i < length vs. vs ! i = JNull \<longrightarrow> ls ! i = ''''"
    using labels_null_blank [OF labels] by blast
  show ?thesis
    using first appended_Inr(1) [OF eq ext] appended_length_rects [OF eq ext len]
      appended_count_text [OF eq ext commas] appended_count_text [OF eq ext lbrace]
      appended_count_text [OF eq ext rbrace] labels_null_free [OF labels] blank
    by (cases vs) simp_all
qed

text \<open>Claim C6 at the set of the ids 2, 3 and 4 and at the empty set, under the default
  configuration.\<close>

theorem drawSet_glyphs_and_width_witness:
  "map idv_of [JNum 2, JNum 3, JNum 4] = map Inr [''id2'', ''id3'', ''id4'']
   \<and> map idv_of [] = map Inr []
   \<and> id_of (JNum 1) = Inr ''id1''
   \<and> [JNum 2, JNum 3, JNum 4] \<noteq> [] \<and> JNull \<notin> set [JNum 2, JNum 3, JNum 4]
   \<and> returns (drawSet config 0 0 (JNum 1) (JArr [JNum 2, JNum 3, JNum 4]))
   \<and> take 1 (appended config (drawSet config 0 0 (JNum 1) (JArr [JNum 2, JNum 3, JNum 4])))
       = [Rect 0 0 225 130]
   \<and> count_text '','' (appended config (drawSet config 0 0 (JNum 1) (JArr [JNum 2, JNum 3, JNum 4])))
       = 2
   \<and> length (rects (appended config (drawSet config 0 0 (JNum 1) (JArr [JNum 2, JNum 3, JNum 4]))))
       = 6
   \<and> take 1 (appended config (drawSet config 0 0 (JNum 1) (JArr [])))
       = [Rect 0 0 (375 / 2) 130]
   \<and> count_text '','' (appended config (drawSet config 0 0 (JNum 1) (JArr []))) = 0"
  using drawSet_glyphs_and_width
    [where m = config and x = 0 and y = 0 and id' = "JNum 1" and vs = "[JNum 2, JNum 3, JNum 4]"
       and ls = "[''id2'', ''id3'', ''id4'']" and idt = "''id1''"]
    drawSet_glyphs_and_width
    [where m = config and x = 0 and y = 0 and id' = "JNum 1" and vs = "[]" and ls = "[]"
       and idt = "''id1''"]
  by (simp add: config_def getTextLength_def idv_of_def id_of_def num_str_def safe_integer_def
      decimal_digit digit_def)

section \<open>Dictionaries\<close>




section \<open>Classes and stack frames\<close>




section \<open>The double box of immutable objects\<close>

text \<open>
  Claim C5. Let the id have a string form. With \<open>d = double_rect_sep\<close>:
  \<^item> for every type of \<open>immutable\<close> other than \<^verbatim>\<open>tuple\<close>, that is for \<^verbatim>\<open>int\<close>,
    \<^verbatim>\<open>str\<close>, \<^verbatim>\<open>None\<close>, \<^verbatim>\<open>bool\<close>, \<^verbatim>\<open>float\<close> and \<^verbatim>\<open>date\<close>, and every value
    that has a string \<open>s\<close> and (unless the type is \<^verbatim>\<open>bool\<close>) a JSON text, \<open>drawObject\<close>
    returns and the first two nodes it appends are the value box and a second rectangle,
    moved by \<open>- d\<close> in \<open>x\<close> and in \<open>y\<close> and larger by \<open>2 * d\<close> in width and in height; the
    only other rectangles are the id box and the type box;
  \<^item> for a tuple whose elements have labels, the first two nodes are the outer box and such
    a second rectangle, and the only other rectangles are one box per element, the id box and
    the type box;
  \<^item> for a list and a set whose elements have labels, and for a dictionary whose values have
    labels, there is no second rectangle: the rectangles are the outer box, the boxes of the
    elements (one per element of a list or set, two per pair of a dictionary), the id box and
    the type box, and nothing else.

  A string, a JSON text or a label exists unless the conversion throws (or, for an integer
  that is not safe, is not modelled).
\<close>

theorem double_box_iff_immutable:
  fixes m x y t id' val si vs dv idt s dt ls dls
  assumes idt: "id_of id' = Inr idt"
  defines "d \<equiv> double_rect_sep m"
  defines "Wp \<equiv> max (obj_min_width m) (getTextLength s + obj_x_padding m)"
  defines "Ws \<equiv> max (obj_min_width m)
      (obj_x_padding m * 2
       + sum_list (map (\<lambda>l. max (item_min_width m) (getTextLength l + 10)) ls))"
  defines "Hs \<equiv> (if truthy si then obj_min_height m + list_index_sep m else obj_min_height m)"
  defines "prim \<equiv> drawObject m x y (JStr t) id' val si"
  defines "tup \<equiv> drawObject m x y (JStr ''tuple'') id' (JArr vs) si"
  defines "lst \<equiv> drawObject m x y (JStr ''list'') id' (JArr vs) si"
  defines "st \<equiv> drawObject m x y (JStr ''set'') id' (JArr vs) si"
  defines "dct \<equiv> drawObject m x y (JStr ''dict'') id' dv si"
  shows "(t \<in> set immutable \<and> t \<noteq> ''tuple'' \<and> js_String val = Inr s
            \<and> (t = ''bool'' \<or> json_stringify val = Inr dt) \<longrightarrow>
           returns prim
           \<and> take 2 (appended m prim)
               = [Rect x y Wp (obj_min_height m),
                  Rect (x - d) (y - d) (Wp + 2 * d) (obj_min_height m + 2 * d)]
           \<and> length (rects (appended m prim)) = 4)
       \<and> (map idv_of vs = map Inr ls \<longrightarrow>
           returns tup
           \<and> take 2 (appended m tup)
               = [Rect x y Ws Hs, Rect (x - d) (y - d) (Ws + 2 * d) (Hs + 2 * d)]
           \<and> length (rects (appended m tup)) = length vs + 4
           \<and> returns lst
           \<and> take 1 (appended m lst) = [Rect x y Ws Hs]
           \<and> length (rects (appended m lst)) = length vs + 3
           \<and> returns st
           \<and> length (rects (appended m st)) = length vs + 3)
       \<and> (map (\<lambda>(k, v). idv_of v) (js_entries dv) = map Inr dls \<longrightarrow>
           returns dct
           \<and> length (rects (appended m dct)) = 2 * length (js_entries dv) + 3)"
proof -
  have prim: "returns prim
           \<and> take 2 (appended m prim)
               = [Rect x y Wp (obj_min_height m),
                  Rect (x - d) (y - d) (Wp + 2 * d) (obj_min_height m + 2 * d)]
           \<and> length (rects (appended m prim)) = 4"
    if imm: "t \<in> set immutable" "t \<noteq> ''tuple''" and s: "js_String val = Inr s"
      and dt: "t = ''bool'' \<or> json_stringify val = Inr dt"
  proof -
    obtain dt' where dt': "(if t = ''bool''
                            then Inr (Some (if truthy val then ''True'' else ''False''))
                            else json_stringify val) = Inr dt'"
      using dt by (cases "t = ''bool''") simp_all
    show ?thesis
      unfolding prim_def primitive_type_dispatch [OF imm]
      using imm(1)
      by (simp add: drawPrimitive_str_eq [OF s idt dt'] appended_def Wp_def d_def)
  qed
  have tup: "returns tup
       \<and> take 2 (appended m tup)
           = [Rect x y Ws Hs, Rect (x - d) (y - d) (Ws + 2 * d) (Hs + 2 * d)]
       \<and> length (rects (appended m tup)) = length vs + 4"
    if labels: "map idv_of vs = map Inr ls"
  proof -
    have disp: "tup = drawSequence m x y (JStr ''tuple'') id' (JArr vs) si"
      by (simp add: tup_def drawObject_def js_includes_def collections_def)
    have imm: "js_includes immutable (JStr ''tuple'')"
      by (simp add: js_includes_def immutable_def)
    obtain m' where eq: "tup = Inr m'" and ext: "extends m m'"
      and pre: "prefix (svg m @ [Rect x y Ws Hs, Rect (x - d) (y - d) (Ws + 2 * d) (Hs + 2 * d)])
                  (svg m')"
      and len: "length (rects (svg m')) = length (rects (svg m)) + (length vs + 4)"
      using drawSequence_ok [OF labels idt, of m x y "JStr ''tuple''" si] imm
      by (auto simp: disp Ws_def Hs_def d_def)
    have "prefix (svg m @ [Rect x y Ws Hs, Rect (x - d) (y - d) (Ws + 2 * d) (Hs + 2 * d)])
            (surface tup)"
      using pre by (simp add: eq)
    from prefix_appended(2) [OF this] appended_Inr(1) [OF eq ext]
      appended_length_rects [OF eq ext len]
    show ?thesis by (simp add: numeral_2_eq_2)
  qed
  have lst: "returns lst
       \<and> take 1 (appended m lst) = [Rect x y Ws Hs]
       \<and> length (rects (appended m lst)) = length vs + 3"
    if labels: "map idv_of vs = map Inr ls"
  proof -
    have disp: "lst = drawSequence m x y (JStr ''list'') id' (JArr vs) si"
      by (simp add: lst_def drawObject_def js_includes_def collections_def)
    have imm: "\<not> js_includes immutable (JStr ''list'')"
      by (simp add: js_includes_def immutable_def)
    obtain m' where eq: "lst = Inr m'" and ext: "extends m m'"
      and pre: "prefix (svg m @ [Rect x y Ws Hs]) (svg m')"
      and len: "length (rects (svg m')) = length (rects (svg m)) + (length vs + 3)"
      using drawSequence_ok [OF labels idt, of m x y "JStr ''list''" si] imm
      by (auto simp: disp Ws_def Hs_def d_def)
    have "prefix (svg m @ [Rect x y Ws Hs]) (surface lst)"
      using pre by (simp add: eq)
    from prefix_appended(2) [OF this] appended_Inr(1) [OF eq ext]
      appended_length_rects [OF eq ext len]
    show ?thesis by (simp add: numeral_2_eq_2)
  qed
  have st: "returns st \<and> length (rects (appended m st)) = length vs + 3"
    if labels: "map idv_of vs = map Inr ls"
  proof -
    have disp: "st = drawSet m x y id' (JArr vs)"
      by (simp add: st_def drawObject_def js_includes_def collections_def)
    obtain m' where eq: "st = Inr m'" and ext: "extends m m'"
      and len: "length (rects (svg m')) = length (rects (svg m)) + (length vs + 3)"
      using drawSet_ok [OF labels idt, of m x y] by (auto simp: disp)
    from appended_Inr(1) [OF eq ext] appended_length_rects [OF eq ext len]
    show ?thesis by simp
  qed
  have dct: "returns dct \<and> length (rects (appended m dct)) = 2 * length (js_entries dv) + 3"
    if labels: "map (\<lambda>(k, v). idv_of v) (js_entries dv) = map Inr dls"
  proof -
    have disp: "dct = drawDict m x y id' dv"
      by (simp add: dct_def drawObject_def js_includes_def collections_def)
    obtain m' where eq: "dct = Inr m'" and ext: "extends m m'"
      and len: "length (rects (svg m')) = length (rects (svg m)) + (2 * length (js_entries dv) + 3)"
      using drawDict_ok [OF labels idt, of m x y] by (auto simp: disp)
    from appended_Inr(1) [OF eq ext] appended_length_rects [OF eq ext len]
    show ?thesis by simp
  qed
  from prim tup lst st dct show ?thesis by blast
qed

text \<open>Claim C5 at an \<^verbatim>\<open>int\<close>, a tuple, a list, a set and a dictionary, under the default
  configuration.\<close>

theorem double_box_iff_immutable_witness:
  "id_of (JNum 1) = Inr ''id1''
   \<and> ''int'' \<in> set immutable \<and> ''int'' \<noteq> ''tuple''
   \<and> js_String (JNum 7) = Inr ''7'' \<and> json_stringify (JNum 7) = Inr (Some ''7'')
   \<and> map idv_of [JNum 2, JNum 3] = map Inr [''id2'', ''id3'']
   \<and> map (\<lambda>(k, v). idv_of v) (js_entries (JObj [(''5'', JNum 6)])) = map Inr [''id6'']
   \<and> take 2 (appended config (drawObject config 0 0 (JStr ''int'') (JNum 1) (JNum 7) JUndefined))
       = [Rect 0 0 200 130, Rect (- 6) (- 6) 212 142]
   \<and> length (rects (appended config
         (drawObject config 0 0 (JStr ''int'') (JNum 1) (JNum 7) JUndefined))) = 4
   \<and> take 2 (appended config
         (drawObject config 0 0 (JStr ''tuple'') (JNum 1) (JArr [JNum 2, JNum 3]) JUndefined))
       = [Rect 0 0 200 130, Rect (- 6) (- 6) 212 142]
   \<and> length (rects (appended config
         (drawObject config 0 0 (JStr ''list'') (JNum 1) (JArr [JNum 2, JNum 3]) JUndefined))) = 5
   \<and> length (rects (appended config
         (drawObject config 0 0 (JStr ''set'') (JNum 1) (JArr [JNum 2, JNum 3]) JUndefined))) = 5
   \<and> length (rects (appended config
         (drawObject config 0 0 (JStr ''dict'') (JNum 1) (JObj [(''5'', JNum 6)]) JUndefined))) = 5"
  using double_box_iff_immutable
    [where m = config and x = 0 and y = 0 and t = "''int''" and id' = "JNum 1" and val = "JNum 7"
       and si = JUndefined and vs = "[JNum 2, JNum 3]" and dv = "JObj [(''5'', JNum 6)]"
       and idt = "''id1''" and s = "''7''" and dt = "Some ''7''" and ls = "[''id2'', ''id3'']"
       and dls = "[''id6'']"]
  by (simp add: immutable_def config_def getTextLength_def idv_of_def id_of_def num_str_def
      safe_integer_def decimal_digit digit_def)

section \<open>Null and undefined\<close>

text \<open>
  Claim C9 does not hold as stated for an id that is \<^verbatim>\<open>undefined\<close>: the label is blank for
  \<^verbatim>\<open>null\<close> only. A descriptor without an id is drawn with the id label
  \<^verbatim>\<open>idundefined\<close>, in an id box sized for that text.
\<close>

theorem drawAll_missing_id_counterexample:
  "drawAll config
     [JObj [(''isClass'', JBool False), (''name'', JStr ''int''), (''value'', JNum 5),
            (''x'', JNum 0), (''y'', JNum 0)]]
   = Inr (config\<lparr>svg :=
            [Rect 0 0 200 130,
             Rect (- 6) (- 6) 212 142,
             Text ''5'' 100 90 ''rgb(27, 14, 139)'' ''middle'',
             Text ''idundefined'' 71 30 ''rgb(150, 100, 28)'' ''middle'',
             Text ''int'' 170 30 ''rgb(27, 14, 139)'' ''middle'',
             Rect 0 0 142 50,
             Rect 140 0 60 50]\<rparr>)"
  by (simp add: eval_defs decimal_digit config_def)

text \<open>
  Claim C9, amended. With a type that is a string, an id that has the string form \<open>idt\<close>
  (every id has one unless its conversion to a string throws), and elements that have the
  labels \<open>ls\<close>:
  \<^item> \<open>drawPrimitive\<close> with the value \<^verbatim>\<open>null\<close> or \<^verbatim>\<open>undefined\<close> returns and appends no
    text element for the value: its only text elements are the id label and the type label;
  \<^item> with the empty string as value it returns and does append a text element for the value,
    before the two labels: the two quotes that \<^verbatim>\<open>JSON.stringify\<close> gives (or \<^verbatim>\<open>False\<close>
    for the type \<^verbatim>\<open>bool\<close>);
  \<^item> \<open>drawSequence\<close> on an array returns, and labels each element with its label
    (followed by its index when indices are shown), which is blank for \<^verbatim>\<open>null\<close>;
  \<^item> the id label is blank when the id is \<^verbatim>\<open>null\<close>;
  \<^item> an element or an id that is \<^verbatim>\<open>undefined\<close> does not make the call fail either, but its
    label is \<^verbatim>\<open>idundefined\<close>, not blank.
\<close>

theorem null_renders_blank:
  fixes m x y t id' val type' vs si idt ls
  assumes idt: "id_of id' = Inr idt" and labels: "map idv_of vs = map Inr ls"
  defines "id_label \<equiv> (if id' = JNull then '''' else idt)"
  defines "absent \<equiv> drawPrimitive m x y (JStr t) id' val"
  defines "emptystr \<equiv> drawPrimitive m x y (JStr t) id' (JStr [])"
  defines "seq \<equiv> drawSequence m x y type' id' (JArr vs) si"
  shows "(val = JNull \<or> val = JUndefined \<longrightarrow>
           returns absent \<and> map content (texts (appended m absent)) = [id_label, t])
       \<and> returns emptystr
       \<and> map content (texts (appended m emptystr))
           = [if t = ''bool'' then ''False'' else json_quote '''', id_label, t]
       \<and> json_quote '''' = [CHR 0x22, CHR 0x22]
       \<and> returns seq
       \<and> map content (texts (appended m seq))
           = concat (map (\<lambda>(j, l). if truthy si then [l, decimal j] else [l]) (enumerate 0 ls))
             @ [id_label, if type' = JStr ''list'' then ''list'' else ''tuple'']
       \<and> (\<forall>i < length vs. vs ! i = JNull \<longrightarrow> ls ! i = '''')
       \<and> (\<forall>i < length vs. vs ! i = JUndefined \<longrightarrow> ls ! i = ''idundefined'')
       \<and> idv_of JNull = Inr '''' \<and> idv_of JUndefined = Inr ''idundefined''
       \<and> id_of JUndefined = Inr ''idundefined''"
proof -
  have absent: "returns absent \<and> map content (texts (appended m absent)) = [id_label, t]"
    if "val = JNull \<or> val = JUndefined"
  proof -
    have "\<exists>s. js_String val = Inr s"
      using that by auto
    then obtain s where s: "js_String val = Inr s" ..
    have "\<exists>dt. (if t = ''bool'' then Inr (Some (if truthy val then ''True'' else ''False''))
                else json_stringify val) = Inr dt"
      using that by auto
    then obtain dt where
      dt: "(if t = ''bool'' then Inr (Some (if truthy val then ''True'' else ''False''))
            else json_stringify val) = Inr dt" ..
    show ?thesis
      using that
      by (auto simp: absent_def drawPrimitive_str_eq [OF s idt dt] appended_def id_label_def)
  qed
  have s: "js_String (JStr []) = Inr []"
    by simp
  have dt: "(if t = ''bool'' then Inr (Some (if truthy (JStr []) then ''True'' else ''False''))
             else json_stringify (JStr []))
            = Inr (Some (if t = ''bool'' then ''False'' else json_quote ''''))"
    by simp
  have emptystr: "returns emptystr
       \<and> map content (texts (appended m emptystr))
           = [if t = ''bool'' then ''False'' else json_quote '''', id_label, t]"
    by (simp add: emptystr_def drawPrimitive_str_eq [OF s idt dt] appended_def id_label_def)
  obtain m' where eq: "seq = Inr m'" and ext: "extends m m'"
    and ts: "map content (texts (svg m')) = map content (texts (svg m))
           @ (concat (map (\<lambda>(j, l). if truthy si then [l, decimal j] else [l])
                       (enumerate 0 ls))
              @ [id_label, if type' = JStr ''list'' then ''list'' else ''tuple''])"
    using drawSequence_ok [OF labels idt, of m x y type' si] unfolding seq_def id_label_def
    by auto
  have blank: "\<forall>i < length vs. vs ! i = JNull \<longrightarrow> ls ! i = ''''"
    using labels_null_blank [OF labels] by blast
  have undef: "\<forall>i < length vs. vs ! i = JUndefined \<longrightarrow> ls ! i = ''idundefined''"
  proof (intro allI impI)
    fix i
    assume "i < length vs" and "vs ! i = JUndefined"
    then show "ls ! i = ''idundefined''"
      using labels_nth [OF labels, of i] by (simp add: idv_of_def id_of_def)
  qed
  show ?thesis
    using absent emptystr appended_Inr(1) [OF eq ext] appended_text_contents [OF eq ext ts]
      blank undef
    by (simp add: idv_of_def id_of_def json_quote_def)
qed

text \<open>Claim C9, amended, at a \<^verbatim>\<open>None\<close> object with the id \<^verbatim>\<open>null\<close> and at the list
  \<^verbatim>\<open>[2, null]\<close>.\<close>

theorem null_renders_blank_witness:
  "id_of JNull = Inr ''idnull''
   \<and> map idv_of [JNum 2, JNull] = map Inr [''id2'', '''']
   \<and> (JNull = JNull \<or> JNull = JUndefined)
   \<and> returns (drawPrimitive config 0 0 (JStr ''None'') JNull JNull)
   \<and> map content (texts (appended config (drawPrimitive config 0 0 (JStr ''None'') JNull JNull)))
       = ['''', ''None'']
   \<and> map content (texts (appended config (drawPrimitive config 0 0 (JStr ''None'') JNull (JStr []))))
       = [json_quote '''', '''', ''None'']
   \<and> returns (drawSequence config 0 0 (JStr ''list'') JNull (JArr [JNum 2, JNull]) JUndefined)
   \<and> map content (texts (appended config
         (drawSequence config 0 0 (JStr ''list'') JNull (JArr [JNum 2, JNull]) JUndefined)))
       = [''id2'', '''', '''', ''list'']"
  using null_renders_blank
    [where m = config and x = 0 and y = 0 and t = "''None''" and id' = JNull and val = JNull
       and type' = "JStr ''list''" and vs = "[JNum 2, JNull]" and si = JUndefined
       and idt = "''idnull''" and ls = "[''id2'', '''']"]
  by (simp add: idv_of_def id_of_def num_str_def safe_integer_def decimal_digit digit_def)

text \<open>A value that is \<^verbatim>\<open>null\<close> where an array is expected is a different matter: the
  call throws.\<close>

lemma drawAll_null_list_value:
  "drawAll config
     [JObj [(''isClass'', JBool False), (''name'', JStr ''list''), (''id'', JNum 1),
            (''value'', JNull), (''x'', JNum 0), (''y'', JNum 0)]]
   = Inl (TypeError, config)"
  by (simp add: eval_defs config_def)

section \<open>Two descriptors through \<open>drawAll\<close>\<close>

text \<open>
  Claim C3 does not hold as stated: \<open>drawAll\<close> takes the type of an item from its field
  \<^verbatim>\<open>name\<close>, and the descriptor of the claim has the field \<^verbatim>\<open>type\<close> instead. The type is
  then \<^verbatim>\<open>undefined\<close>: the value is drawn as \<^verbatim>\<open>true\<close>, without a double box, and the call
  throws a \<open>TypeError\<close> when \<open>drawProperties\<close> measures the type, before an id box or a type
  box is drawn.
\<close>

theorem drawAll_type_bool_counterexample:
  "drawAll config
     [JObj [(''isClass'', JBool False), (''type'', JStr ''bool''), (''id'', JNum 7),
            (''value'', JBool True), (''x'', JNum 0), (''y'', JNum 0)]]
   = Inl (TypeError,
          config\<lparr>svg := [Rect 0 0 200 130,
                         Text ''true'' 100 90 ''rgb(27, 14, 139)'' ''middle'']\<rparr>)"
  by (simp add: eval_defs decimal_digit config_def)

text \<open>
  Claim C3, amended. Drawing the single descriptor
  \<^verbatim>\<open>{isClass:false, name:"bool", id:7, value:true, x:0, y:0}\<close> through \<open>drawAll\<close>, under the
  default configuration, produces a value box with its double box, the text \<^verbatim>\<open>True\<close> in
  it, the id label \<^verbatim>\<open>id7\<close> and the type label \<^verbatim>\<open>bool\<close>, and the id box and the type
  box.
\<close>

theorem drawAll_name_bool:
  "drawAll config
     [JObj [(''isClass'', JBool False), (''name'', JStr ''bool''), (''id'', JNum 7),
            (''value'', JBool True), (''x'', JNum 0), (''y'', JNum 0)]]
   = Inr (config\<lparr>svg :=
            [Rect 0 0 200 130,
             Rect (- 6) (- 6) 212 142,
             Text ''True'' 100 90 ''rgb(27, 14, 139)'' ''middle'',
             Text ''id7'' 30 30 ''rgb(150, 100, 28)'' ''middle'',
             Text ''bool'' 170 30 ''rgb(27, 14, 139)'' ''middle'',
             Rect 0 0 60 50,
             Rect 140 0 60 50]\<rparr>)"
  by (simp add: eval_defs decimal_digit config_def)

text \<open>
  Claim C4 does not hold as stated, for the same reason: the descriptor has the field
  \<^verbatim>\<open>type\<close>, so the array is drawn as a primitive of type \<^verbatim>\<open>undefined\<close> with the text
  \<^verbatim>\<open>[2,3]\<close>, and the call throws a \<open>TypeError\<close>.
\<close>

theorem drawAll_type_list_counterexample:
  "drawAll config
     [JObj [(''isClass'', JBool False), (''type'', JStr ''list''), (''id'', JNum 1),
            (''value'', JArr [JNum 2, JNum 3]), (''showIndexes'', JBool True),
            (''x'', JNum 0), (''y'', JNum 0)]]
   = Inl (TypeError,
          config\<lparr>svg := [Rect 0 0 200 130,
                         Text ''[2,3]'' 100 90 ''rgb(27, 14, 139)'' ''middle'']\<rparr>)"
  by (simp add: eval_defs decimal_digit config_def)

text \<open>
  Claim C4, amended. Drawing the single descriptor
  \<^verbatim>\<open>{isClass:false, name:"list", id:1, value:[2,3], show_indexes:true, x:0, y:0}\<close> through
  \<open>drawAll\<close>, under the default configuration, produces an outer box of height
  \<open>obj_min_height + list_index_sep\<close>, two element boxes with the texts \<^verbatim>\<open>id2\<close> and
  \<^verbatim>\<open>id3\<close>, the index labels \<^verbatim>\<open>0\<close> and \<^verbatim>\<open>1\<close> above them, and the property boxes of
  \<^verbatim>\<open>id1\<close> and \<^verbatim>\<open>list\<close>.
\<close>

theorem drawAll_name_list_show_indexes:
  "drawAll config
     [JObj [(''isClass'', JBool False), (''name'', JStr ''list''), (''id'', JNum 1),
            (''value'', JArr [JNum 2, JNum 3]), (''show_indexes'', JBool True),
            (''x'', JNum 0), (''y'', JNum 0)]]
   = Inr (config\<lparr>svg :=
            [Rect 0 0 200 (obj_min_height config + list_index_sep config),
             Rect 25 85 50 50,
             Text ''id2'' 50 115 ''rgb(150, 100, 28)'' ''middle'',
             Text ''0'' 50 (145 / 2) ''rgb(0, 0, 0)'' ''middle'',
             Rect 75 85 50 50,
             Text ''id3'' 100 115 ''rgb(150, 100, 28)'' ''middle'',
             Text ''1'' 100 (145 / 2) ''rgb(0, 0, 0)'' ''middle'',
             Text ''id1'' 30 30 ''rgb(150, 100, 28)'' ''middle'',
             Text ''list'' 170 30 ''rgb(27, 14, 139)'' ''middle'',
             Rect 0 0 60 50,
             Rect 140 0 60 50]\<rparr>)
   \<and> obj_min_height config + list_index_sep config = 150"
  by (simp add: eval_defs decimal_digit config_def)

text \<open>
  The field that switches the indices on is \<^verbatim>\<open>show_indexes\<close>. With \<^verbatim>\<open>showIndexes\<close>, which
  only the replaced definition of \<open>drawAll\<close> reads, the list is drawn without indices and at
  the height \<open>obj_min_height\<close>; and the replaced definition, too, takes the type from
  \<^verbatim>\<open>name\<close>, so it throws on the descriptor of the claim as well.
\<close>

lemma drawAll_name_list_showIndexes:
  "drawAll config
     [JObj [(''isClass'', JBool False), (''name'', JStr ''list''), (''id'', JNum 1),
            (''value'', JArr [JNum 2, JNum 3]), (''showIndexes'', JBool True),
            (''x'', JNum 0), (''y'', JNum 0)]]
   = Inr (config\<lparr>svg :=
            [Rect 0 0 200 130,
             Rect 25 65 50 50,
             Text ''id2'' 50 95 ''rgb(150, 100, 28)'' ''middle'',
             Rect 75 65 50 50,
             Text ''id3'' 100 95 ''rgb(150, 100, 28)'' ''middle'',
             Text ''id1'' 30 30 ''rgb(150, 100, 28)'' ''middle'',
             Text ''list'' 170 30 ''rgb(27, 14, 139)'' ''middle'',
             Rect 0 0 60 50,
             Rect 140 0 60 50]\<rparr>)"
  by (simp add: eval_defs decimal_digit config_def)

lemma drawAll_replaced_type_list:
  "drawAll_replaced config
     [JObj [(''isClass'', JBool False), (''type'', JStr ''list''), (''id'', JNum 1),
            (''value'', JArr [JNum 2, JNum 3]), (''showIndexes'', JBool True),
            (''x'', JNum 0), (''y'', JNum 0)]]
   = Inl (TypeError,
          config\<lparr>svg := [Rect 0 0 200 130,
                         Text ''[2,3]'' 100 90 ''rgb(27, 14, 139)'' ''middle'']\<rparr>)"
  by (simp add: eval_defs decimal_digit config_def)

section \<open>Values without a string form\<close>

text \<open>
  An object with an own property \<^verbatim>\<open>toString\<close>, which \<^verbatim>\<open>JSON.parse\<close> can return, has
  no string form, alone or as an element of an array. As the value of a primitive it makes
  \<open>drawAll\<close> throw before a node is appended; as an id, when the property boxes are reached;
  as an element of a set or list, in the loop that sizes the outer box; as a value of a
  dictionary or of an attribute, when its row is reached.
\<close>

lemma js_String_toString:
  "js_String (JObj [(''toString'', JNum 1)]) = Inl TypeError
   \<and> js_String (JArr [JNum 1, JObj [(''toString'', JNum 1)]]) = Inl TypeError
   \<and> js_String (JArr [JNum 1, JNull, JObj [(''a'', JNum 1)]]) = Inr ''1,,[object Object]''"
  by (simp add: num_str_def safe_integer_def decimal_digit digit_def)

lemma drawAll_toString_value:
  "drawAll config
     [JObj [(''isClass'', JBool False), (''name'', JStr ''int''), (''id'', JNum 1),
            (''value'', JObj [(''toString'', JNum 1)]), (''x'', JNum 0), (''y'', JNum 0)]]
   = Inl (TypeError, config)"
  by (simp add: eval_defs config_def)

lemma drawAll_toString_id:
  "drawAll config
     [JObj [(''isClass'', JBool False), (''name'', JStr ''int''),
            (''id'', JObj [(''toString'', JNum 1)]), (''value'', JNum 5),
            (''x'', JNum 0), (''y'', JNum 0)]]
   = Inl (TypeError,
          config\<lparr>svg := [Rect 0 0 200 130,
                         Rect (- 6) (- 6) 212 142,
                         Text ''5'' 100 90 ''rgb(27, 14, 139)'' ''middle'']\<rparr>)"
  by (simp add: eval_defs decimal_digit config_def)

lemma drawAll_toString_element:
  "drawAll config
     [JObj [(''isClass'', JBool False), (''name'', JStr ''set''), (''id'', JNum 1),
            (''value'', JArr [JNum 2, JObj [(''toString'', JNum 1)]]),
            (''x'', JNum 0), (''y'', JNum 0)]]
   = Inl (TypeError, config)"
  by (simp add: eval_defs decimal_digit config_def)

lemma drawAll_toString_dict_value:
  "drawAll config
     [JObj [(''isClass'', JBool False), (''name'', JStr ''dict''), (''id'', JNum 1),
            (''value'', JObj [(''1'', JNum 2), (''3'', JObj [(''toString'', JNum 1)])]),
            (''x'', JNum 0), (''y'', JNum 0)]]
   = Inl (TypeError,
          config\<lparr>svg := [Rect 25 75 50 50,
                         Text ''id1'' 52 105 ''rgb(150, 100, 28)'' ''middle'']\<rparr>)"
  by (simp add: eval_defs decimal_digit config_def)

lemma drawAll_toString_attribute:
  "drawAll config
     [JObj [(''isClass'', JBool True), (''name'', JStr ''A''), (''id'', JNum 1),
            (''value'', JObj [(''a'', JObj [(''toString'', JNum 1)])]),
            (''x'', JNum 0), (''y'', JNum 0)]]
   = Inl (TypeError, config\<lparr>svg := [Rect 0 0 162 150]\<rparr>)"
  by (simp add: eval_defs decimal_digit config_def)

end
